theory Spec2Isabelle
  imports Complex_Main
begin

section \<open>Values of the host language\<close>

text \<open>
  Timestamps are milliseconds since the epoch, as \<^verbatim>\<open>Date.getTime()\<close> gives them. Every
  operation that reads the clock (\<^verbatim>\<open>new Date()\<close>, the engine's \<^verbatim>\<open>NOW()\<close>) takes the
  reading as its argument \<open>now\<close>.
\<close>

type_synonym timestamp = nat

text \<open>
  A parsed JSON document. \<open>JNum\<close> holds the number the parser produced; of a number only
  its being zero is ever inspected here.
\<close>

datatype json =
    JNull
  | JBool bool
  | JNum rat
  | JStr string
  | JArr "json list"
  | JObj "(string \<times> json) list"

text \<open>ToBoolean on a JSON value: \<^verbatim>\<open>null\<close>, \<^verbatim>\<open>false\<close>, \<^verbatim>\<open>0\<close> and \<^verbatim>\<open>""\<close> are falsy.\<close>

fun truthy :: "json \<Rightarrow> bool" where
  "truthy JNull = False"
| "truthy (JBool b) = b"
| "truthy (JNum n) = (n \<noteq> 0)"
| "truthy (JStr s) = (s \<noteq> [])"
| "truthy (JArr xs) = True"
| "truthy (JObj kvs) = True"

text \<open>A property that may be missing (\<^verbatim>\<open>undefined\<close>) is an option; \<^verbatim>\<open>undefined\<close> is falsy.\<close>

fun truthy_opt :: "json option \<Rightarrow> bool" where
  "truthy_opt None = False"
| "truthy_opt (Some v) = truthy v"

text \<open>A string is truthy when it is not empty (\<^verbatim>\<open>if (userId)\<close>, \<^verbatim>\<open>name || ...\<close>).\<close>

fun truthy_str :: "string option \<Rightarrow> bool" where
  "truthy_str None = False"
| "truthy_str (Some s) = (s \<noteq> [])"

subsection \<open>Numbers\<close>

text \<open>
  The numbers that occur here are the doubles \<^verbatim>\<open>parseInt\<close> can return and the integers the
  callers pass: \<^verbatim>\<open>NaN\<close>, an integer, and the two infinities. Negative zero is not told
  from zero: both are falsy, and \<open>||\<close> replaces both.
\<close>

datatype jsnum = NaN | Num int | PosInfinity | NegInfinity

text \<open>The number of binary digits of a natural number.\<close>

fun bits :: "nat \<Rightarrow> nat" where
  "bits n = (if n = 0 then 0 else Suc (bits (n div 2)))"

declare bits.simps [simp del]

text \<open>
  The double nearest to a natural number, ties to the even significand: exact below
  \<open>2^53\<close>, a multiple of a power of two above, and \<open>None\<close> where the rounding leaves the
  range of the doubles, which is where the language gives \<^verbatim>\<open>Infinity\<close>.
\<close>

definition roundDouble :: "nat \<Rightarrow> nat option" where
  "roundDouble a =
     (if a < 2 ^ 53 then Some a
      else
        (let e = bits a - 53;
             q = a div 2 ^ e;
             r = a mod 2 ^ e;
             h = 2 ^ (e - 1);
             q' = (if h < r \<or> (r = h \<and> odd q) then q + 1 else q);
             v = q' * 2 ^ e
         in if v < 2 ^ 1024 then Some v else None))"

definition toNumber :: "int \<Rightarrow> nat \<Rightarrow> jsnum" where
  "toNumber sign m =
     (case roundDouble m of
        None \<Rightarrow> if sign < 0 then NegInfinity else PosInfinity
      | Some v \<Rightarrow> Num (sign * int v))"

text \<open>\<^verbatim>\<open>x || d\<close> on a number: \<^verbatim>\<open>NaN\<close> and \<^verbatim>\<open>0\<close> are falsy and give the default.\<close>

fun js_or :: "jsnum \<Rightarrow> jsnum \<Rightarrow> jsnum" where
  "js_or NaN d = d"
| "js_or (Num n) d = (if n = 0 then d else Num n)"
| "js_or PosInfinity d = PosInfinity"
| "js_or NegInfinity d = NegInfinity"

text \<open>\<^verbatim>\<open>Math.min\<close> of two numbers.\<close>

fun Math_min :: "jsnum \<Rightarrow> jsnum \<Rightarrow> jsnum" where
  "Math_min NaN y = NaN"
| "Math_min x NaN = NaN"
| "Math_min NegInfinity y = NegInfinity"
| "Math_min x NegInfinity = NegInfinity"
| "Math_min PosInfinity y = y"
| "Math_min x PosInfinity = x"
| "Math_min (Num a) (Num b) = Num (min a b)"

subsection \<open>White space\<close>

text \<open>
  A string is its UTF-8 bytes, so a character beyond ASCII is a run of two to four bytes.
  The white space that \<^verbatim>\<open>parseInt\<close> skips and \<^verbatim>\<open>BigInt\<close> trims is the language's
  \<^verbatim>\<open>WhiteSpace\<close> and \<^verbatim>\<open>LineTerminator\<close>: of one byte TAB, LF, VT, FF, CR and the space; of
  two bytes U+00A0; of three bytes U+1680, U+2000 to U+200A, U+2028, U+2029, U+202F,
  U+205F, U+3000 and U+FEFF.
\<close>

definition isWhite1 :: "char \<Rightarrow> bool" where
  "isWhite1 a = ((of_char a :: nat) \<in> {0x09, 0x0A, 0x0B, 0x0C, 0x0D, 0x20})"

definition isWhite2 :: "char \<Rightarrow> char \<Rightarrow> bool" where
  "isWhite2 a b = ((of_char a :: nat) = 0xC2 \<and> (of_char b :: nat) = 0xA0)"

definition isWhite3 :: "char \<Rightarrow> char \<Rightarrow> char \<Rightarrow> bool" where
  "isWhite3 a b c =
     (let x = (of_char a :: nat); y = (of_char b :: nat); z = (of_char c :: nat)
      in (x = 0xE1 \<and> y = 0x9A \<and> z = 0x80)
       \<or> (x = 0xE2 \<and> y = 0x80 \<and> (0x80 \<le> z \<and> z \<le> 0x8A \<or> z = 0xA8 \<or> z = 0xA9 \<or> z = 0xAF))
       \<or> (x = 0xE2 \<and> y = 0x81 \<and> z = 0x9F)
       \<or> (x = 0xE3 \<and> y = 0x80 \<and> z = 0x80)
       \<or> (x = 0xEF \<and> y = 0xBB \<and> z = 0xBF))"

text \<open>Dropping the white space a string begins with.\<close>

fun dropWhite :: "string \<Rightarrow> string" where
  "dropWhite (a # b # c # s) =
     (if isWhite1 a then dropWhite (b # c # s)
      else if isWhite2 a b then dropWhite (c # s)
      else if isWhite3 a b c then dropWhite s
      else a # b # c # s)"
| "dropWhite [a, b] =
     (if isWhite1 a then dropWhite [b] else if isWhite2 a b then [] else [a, b])"
| "dropWhite [a] = (if isWhite1 a then [] else [a])"
| "dropWhite [] = []"

text \<open>
  Dropping the white space a string ends with; the argument is the string reversed, so
  its first byte is the last byte of a character.
\<close>

fun dropWhiteRev :: "string \<Rightarrow> string" where
  "dropWhiteRev (c # b # a # s) =
     (if isWhite1 c then dropWhiteRev (b # a # s)
      else if isWhite2 b c then dropWhiteRev (a # s)
      else if isWhite3 a b c then dropWhiteRev s
      else c # b # a # s)"
| "dropWhiteRev [c, b] =
     (if isWhite1 c then dropWhiteRev [b] else if isWhite2 b c then [] else [c, b])"
| "dropWhiteRev [c] = (if isWhite1 c then [] else [c])"
| "dropWhiteRev [] = []"

subsection \<open>parseInt and BigInt\<close>

text \<open>
  \<^verbatim>\<open>parseInt(s)\<close> without a radix: leading white space is skipped, then an optional sign,
  then an optional \<^verbatim>\<open>0x\<close>/\<^verbatim>\<open>0X\<close> (radix 16), then the longest run of digits of the radix;
  whatever follows is ignored, and no digit at all gives \<^verbatim>\<open>NaN\<close>. The result is the double
  nearest to the integer the digits denote.
\<close>

definition digitVal :: "char \<Rightarrow> nat option" where
  "digitVal c =
     (let n = of_char c :: nat in
      if 48 \<le> n \<and> n \<le> 57 then Some (n - 48)
      else if 97 \<le> n \<and> n \<le> 122 then Some (n - 87)
      else if 65 \<le> n \<and> n \<le> 90 then Some (n - 55)
      else None)"

definition isDigit :: "nat \<Rightarrow> char \<Rightarrow> bool" where
  "isDigit radix c = (case digitVal c of None \<Rightarrow> False | Some d \<Rightarrow> d < radix)"

definition digitsVal :: "nat \<Rightarrow> string \<Rightarrow> int" where
  "digitsVal radix ds = foldl (\<lambda>acc c. acc * int radix + int (case digitVal c of None \<Rightarrow> 0 | Some d \<Rightarrow> d)) 0 ds"

fun stripSign :: "string \<Rightarrow> int \<times> string" where
  "stripSign [] = (1, [])"
| "stripSign (c # cs) =
     (if c = CHR ''-'' then (- 1, cs) else if c = CHR ''+'' then (1, cs) else (1, c # cs))"

fun stripHex :: "string \<Rightarrow> nat \<times> string" where
  "stripHex (a # b # cs) =
     (if a = CHR ''0'' \<and> (b = CHR ''x'' \<or> b = CHR ''X'') then (16, cs) else (10, a # b # cs))"
| "stripHex cs = (10, cs)"

definition parseInt :: "string \<Rightarrow> jsnum" where
  "parseInt s =
     (let (sign, s1) = stripSign (dropWhite s);
          (radix, s2) = stripHex s1;
          z = takeWhile (isDigit radix) s2
      in if z = [] then NaN else toNumber sign (nat (digitsVal radix z)))"

text \<open>A query parameter that is absent reads as \<^verbatim>\<open>undefined\<close>, which \<^verbatim>\<open>parseInt\<close> stringifies.\<close>

definition parseIntParam :: "string option \<Rightarrow> jsnum" where
  "parseIntParam q = parseInt (case q of None \<Rightarrow> ''undefined'' | Some s \<Rightarrow> s)"

text \<open>
  \<^verbatim>\<open>BigInt(s)\<close>: white space is trimmed at both ends; the empty string is \<^verbatim>\<open>0n\<close>; otherwise
  the whole rest must be a decimal literal with an optional sign, or an unsigned
  \<^verbatim>\<open>0x\<close>, \<^verbatim>\<open>0o\<close> or \<^verbatim>\<open>0b\<close> literal. Anything else raises a SyntaxError (\<open>None\<close>).
\<close>

definition trimWhite :: "string \<Rightarrow> string" where
  "trimWhite s = rev (dropWhiteRev (rev (dropWhite s)))"

definition allDigits :: "nat \<Rightarrow> string \<Rightarrow> int option" where
  "allDigits radix ds =
     (if ds \<noteq> [] \<and> list_all (isDigit radix) ds then Some (digitsVal radix ds) else None)"

fun bigIntLiteral :: "string \<Rightarrow> int option" where
  "bigIntLiteral [] = Some 0"
| "bigIntLiteral [c] = allDigits 10 [c]"
| "bigIntLiteral (a # b # cs) =
     (if a = CHR ''0'' \<and> (b = CHR ''x'' \<or> b = CHR ''X'') then allDigits 16 cs
      else if a = CHR ''0'' \<and> (b = CHR ''o'' \<or> b = CHR ''O'') then allDigits 8 cs
      else if a = CHR ''0'' \<and> (b = CHR ''b'' \<or> b = CHR ''B'') then allDigits 2 cs
      else if a = CHR ''-'' then map_option uminus (allDigits 10 (b # cs))
      else if a = CHR ''+'' then allDigits 10 (b # cs)
      else allDigits 10 (a # b # cs))"

definition BigInt :: "string \<Rightarrow> int option" where
  "BigInt s = bigIntLiteral (trimWhite s)"

subsection \<open>Numbers as text\<close>

text \<open>The decimal digits of a natural number, as a template literal prints it.\<close>

fun decimal :: "nat \<Rightarrow> string" where
  "decimal n =
     (if n < 10 then [char_of (48 + n)] else decimal (n div 10) @ [char_of (48 + n mod 10)])"

declare decimal.simps [simp del]


section \<open>The entity store\<close>

text \<open>
  The five tables of the schema. A nullable column is an option. \<open>createdAt\<close> and
  \<open>updatedAt\<close> are filled by the engine: both default to the time of the insert, and
  \<open>updatedAt\<close> is declared \<^verbatim>\<open>onUpdateNow()\<close>, so the engine refreshes it when an update
  changes the row and does not assign the column itself.
\<close>

datatype role = RoleUser | RoleAdmin

record user_row =
  u_id :: int
  u_openId :: string
  u_name :: "string option"
  u_email :: "string option"
  u_loginMethod :: "string option"
  u_role :: role
  u_createdAt :: timestamp
  u_updatedAt :: timestamp
  u_lastSignedIn :: timestamp

record admin_row =
  a_id :: int
  a_email :: string
  a_passwordHash :: string
  a_name :: "string option"
  a_isActive :: bool
  a_createdAt :: timestamp
  a_updatedAt :: timestamp
  a_lastSignedIn :: "timestamp option"

record project_row =
  p_id :: int
  p_adminUserId :: int
  p_name :: string
  p_description :: "string option"
  p_schema :: "json option"
  p_isActive :: bool
  p_createdAt :: timestamp
  p_updatedAt :: timestamp

record apikey_row =
  k_id :: int
  k_projectId :: int
  k_key :: string
  k_name :: string
  k_permissions :: "string list option"
  k_isActive :: bool
  k_lastUsedAt :: "timestamp option"
  k_createdAt :: timestamp
  k_updatedAt :: timestamp

record datum_row =
  d_id :: int
  d_projectId :: int
  d_userId :: "string option"
  d_dataType :: "string option"
  d_data :: json
  d_isPublic :: bool
  d_createdAt :: timestamp
  d_updatedAt :: timestamp

text \<open>
  A table is its rows, in the order the engine returns them, and the next value of its
  auto-increment counter. Column equality in a \<^verbatim>\<open>WHERE\<close> clause is equality of values.
\<close>

record 'a table =
  rows :: "'a list"
  nextId :: int

record db =
  users :: "user_row table"
  adminUsers :: "admin_row table"
  projects :: "project_row table"
  apiKeys :: "apikey_row table"
  dynamicData :: "datum_row table"

text \<open>What the driver reports for a statement that writes; of it only the insert id is kept.\<close>

record header =
  insertId :: int

datatype trpc_code = UNAUTHORIZED | FORBIDDEN | BAD_REQUEST

text \<open>
  Exceptions: a \<^verbatim>\<open>TRPCError\<close> with its code, an \<^verbatim>\<open>Error\<close> with its message, a
  \<^verbatim>\<open>SyntaxError\<close> of a conversion, a \<^verbatim>\<open>TypeError\<close> of a serialisation, and an error raised
  by the engine for a statement it rejects.
\<close>

datatype err =
    TRPCError trpc_code
  | Error string
  | SyntaxError string
  | TypeError string
  | QueryError string

text \<open>
  A \<^verbatim>\<open>null\<close> given for a JSON column is stored as the column's \<^verbatim>\<open>NULL\<close>, as a value that
  was not given is.
\<close>

fun nullable :: "json option \<Rightarrow> json option" where
  "nullable None = None"
| "nullable (Some JNull) = None"
| "nullable (Some j) = Some j"

text \<open>
  \<^verbatim>\<open>UPDATE t SET ... WHERE ...\<close>: every row the condition selects is assigned; \<open>touch\<close> is
  the engine's own refresh of an \<^verbatim>\<open>onUpdateNow\<close> column, applied only to a row that the
  assignment changed.
\<close>

definition sql_update :: "('a \<Rightarrow> bool) \<Rightarrow> ('a \<Rightarrow> 'a) \<Rightarrow> ('a \<Rightarrow> 'a) \<Rightarrow> 'a list \<Rightarrow> 'a list" where
  "sql_update cond assign touch rs =
     map (\<lambda>r. if cond r then (if assign r = r then r else touch (assign r)) else r) rs"

text \<open>\<^verbatim>\<open>SELECT ... WHERE ... LIMIT 1\<close> and \<^verbatim>\<open>result.length > 0 ? result[0] : null\<close>.\<close>

definition select_first :: "('a \<Rightarrow> bool) \<Rightarrow> 'a list \<Rightarrow> 'a option" where
  "select_first cond rs = (case filter cond rs of [] \<Rightarrow> None | r # _ \<Rightarrow> Some r)"

section \<open>The persistence access layer\<close>

text \<open>
  The connection handle that \<^verbatim>\<open>getDb()\<close> returns is \<open>db option\<close>: \<open>None\<close> when no
  datastore connection exists. A function that throws returns \<open>Inl\<close>; one that writes
  returns the datastore after the statement. No function here writes before it throws.
\<close>

subsection \<open>Users\<close>

text \<open>
  The argument of \<^verbatim>\<open>upsertUser\<close>. A nullable text field is \<open>None\<close> when the property is
  \<^verbatim>\<open>undefined\<close>, \<open>Some None\<close> when it is \<^verbatim>\<open>null\<close>. The other properties of the insert
  type are never read.
\<close>

record InsertUser =
  iu_openId :: string
  iu_name :: "string option option"
  iu_email :: "string option option"
  iu_loginMethod :: "string option option"
  iu_lastSignedIn :: "timestamp option"
  iu_role :: "role option"

text \<open>The assignable columns of \<^verbatim>\<open>values\<close> and of \<^verbatim>\<open>updateSet\<close>, \<open>None\<close> for a key not set.\<close>

record user_set =
  s_name :: "string option option"
  s_email :: "string option option"
  s_loginMethod :: "string option option"
  s_lastSignedIn :: "timestamp option"
  s_role :: "role option"

text \<open>
  What the function has put into both \<^verbatim>\<open>values\<close> and \<^verbatim>\<open>updateSet\<close> once the text fields,
  \<^verbatim>\<open>lastSignedIn\<close> and \<^verbatim>\<open>role\<close> are through; \<open>ownerOpenId\<close> is \<^verbatim>\<open>ENV.ownerOpenId\<close>.
\<close>

definition supplied :: "string \<Rightarrow> InsertUser \<Rightarrow> user_set" where
  "supplied ownerOpenId user =
     \<lparr> s_name = iu_name user,
       s_email = iu_email user,
       s_loginMethod = iu_loginMethod user,
       s_lastSignedIn = iu_lastSignedIn user,
       s_role = (case iu_role user of
                   Some r \<Rightarrow> Some r
                 | None \<Rightarrow> if iu_openId user = ownerOpenId then Some RoleAdmin else None) \<rparr>"

definition no_keys :: "user_set \<Rightarrow> bool" where
  "no_keys s =
     (s_name s = None \<and> s_email s = None \<and> s_loginMethod s = None
      \<and> s_lastSignedIn s = None \<and> s_role s = None)"

definition upsert_values :: "string \<Rightarrow> timestamp \<Rightarrow> InsertUser \<Rightarrow> user_set" where
  "upsert_values ownerOpenId now user =
     (let v = supplied ownerOpenId user
      in case s_lastSignedIn v of None \<Rightarrow> v\<lparr>s_lastSignedIn := Some now\<rparr> | Some t \<Rightarrow> v)"

definition upsert_updateSet :: "string \<Rightarrow> timestamp \<Rightarrow> InsertUser \<Rightarrow> user_set" where
  "upsert_updateSet ownerOpenId now user =
     (let s = supplied ownerOpenId user
      in if no_keys s then s\<lparr>s_lastSignedIn := Some now\<rparr> else s)"

definition assign_user :: "user_set \<Rightarrow> user_row \<Rightarrow> user_row" where
  "assign_user s r =
     r\<lparr> u_name := (case s_name s of None \<Rightarrow> u_name r | Some v \<Rightarrow> v),
        u_email := (case s_email s of None \<Rightarrow> u_email r | Some v \<Rightarrow> v),
        u_loginMethod := (case s_loginMethod s of None \<Rightarrow> u_loginMethod r | Some v \<Rightarrow> v),
        u_lastSignedIn := (case s_lastSignedIn s of None \<Rightarrow> u_lastSignedIn r | Some t \<Rightarrow> t),
        u_role := (case s_role s of None \<Rightarrow> u_role r | Some x \<Rightarrow> x) \<rparr>"

text \<open>The row the engine inserts: columns without a value take their schema default.\<close>

definition new_user :: "timestamp \<Rightarrow> string \<Rightarrow> user_set \<Rightarrow> int \<Rightarrow> user_row" where
  "new_user now openId v i =
     \<lparr> u_id = i,
       u_openId = openId,
       u_name = (case s_name v of None \<Rightarrow> None | Some x \<Rightarrow> x),
       u_email = (case s_email v of None \<Rightarrow> None | Some x \<Rightarrow> x),
       u_loginMethod = (case s_loginMethod v of None \<Rightarrow> None | Some x \<Rightarrow> x),
       u_role = (case s_role v of None \<Rightarrow> RoleUser | Some x \<Rightarrow> x),
       u_createdAt = now,
       u_updatedAt = now,
       u_lastSignedIn = (case s_lastSignedIn v of None \<Rightarrow> now | Some t \<Rightarrow> t) \<rparr>"

text \<open>\<^verbatim>\<open>INSERT\<close>: the new row takes the counter's value and goes after the others.\<close>

definition sql_insert :: "(int \<Rightarrow> 'a) \<Rightarrow> 'a table \<Rightarrow> header \<times> 'a table" where
  "sql_insert mk t =
     (\<lparr> insertId = nextId t \<rparr>, \<lparr> rows = rows t @ [mk (nextId t)], nextId = nextId t + 1 \<rparr>)"

text \<open>
  \<^verbatim>\<open>INSERT ... ON DUPLICATE KEY UPDATE\<close> on the unique column \<open>openId\<close>: a row holding
  the identifier is updated with \<open>upd\<close>, otherwise \<open>vals\<close> is inserted.
\<close>

definition users_insert_onDuplicateKeyUpdate ::
    "timestamp \<Rightarrow> string \<Rightarrow> user_set \<Rightarrow> user_set \<Rightarrow> user_row table \<Rightarrow> user_row table" where
  "users_insert_onDuplicateKeyUpdate now openId vals upd t =
     (if list_ex (\<lambda>r. u_openId r = openId) (rows t)
      then t\<lparr> rows := sql_update (\<lambda>r. u_openId r = openId) (assign_user upd)
                          (\<lambda>r. r\<lparr>u_updatedAt := now\<rparr>) (rows t) \<rparr>
      else snd (sql_insert (new_user now openId vals) t))"

definition upsertUser :: "string \<Rightarrow> timestamp \<Rightarrow> db option \<Rightarrow> InsertUser \<Rightarrow> err + db option" where
  "upsertUser ownerOpenId now dbh user =
     (if iu_openId user = [] then Inl (Error ''User openId is required for upsert'')
      else case dbh of
        None \<Rightarrow> Inr None
      | Some d \<Rightarrow>
          Inr (Some (d\<lparr> users := users_insert_onDuplicateKeyUpdate now (iu_openId user)
                                     (upsert_values ownerOpenId now user)
                                     (upsert_updateSet ownerOpenId now user) (users d) \<rparr>)))"

definition getUserByOpenId :: "db option \<Rightarrow> string \<Rightarrow> err + user_row option" where
  "getUserByOpenId dbh openId =
     (case dbh of
        None \<Rightarrow> Inr None
      | Some d \<Rightarrow> Inr (select_first (\<lambda>r. u_openId r = openId) (rows (users d))))"

subsection \<open>Projects\<close>

definition unavailable :: err where
  "unavailable = Error ''Database not available''"

definition createProject ::
    "timestamp \<Rightarrow> db option \<Rightarrow> int \<Rightarrow> string \<Rightarrow> string option \<Rightarrow> json option \<Rightarrow> err + header \<times> db" where
  "createProject now dbh adminUserId name description schema =
     (case dbh of
        None \<Rightarrow> Inl unavailable
      | Some d \<Rightarrow>
          (let (h, t) = sql_insert (\<lambda>i. \<lparr> p_id = i, p_adminUserId = adminUserId, p_name = name,
                                           p_description = description, p_schema = nullable schema,
                                           p_isActive = True, p_createdAt = now,
                                           p_updatedAt = now \<rparr>) (projects d)
           in Inr (h, d\<lparr> projects := t \<rparr>)))"

definition getProjectsByAdminId :: "db option \<Rightarrow> int \<Rightarrow> err + project_row list" where
  "getProjectsByAdminId dbh adminUserId =
     (case dbh of
        None \<Rightarrow> Inl unavailable
      | Some d \<Rightarrow> Inr (filter (\<lambda>r. p_adminUserId r = adminUserId) (rows (projects d))))"

definition getProjectById :: "db option \<Rightarrow> int \<Rightarrow> err + project_row option" where
  "getProjectById dbh projectId =
     (case dbh of
        None \<Rightarrow> Inl unavailable
      | Some d \<Rightarrow> Inr (select_first (\<lambda>r. p_id r = projectId) (rows (projects d))))"

text \<open>
  The patch the router hands to \<^verbatim>\<open>updateProject\<close>; a property that is \<^verbatim>\<open>undefined\<close> is
  left out of the statement, and a statement that assigns nothing is rejected.
\<close>

record project_updates =
  up_name :: "string option"
  up_description :: "string option"
  up_schema :: "json option"

definition assign_project :: "project_updates \<Rightarrow> project_row \<Rightarrow> project_row" where
  "assign_project u r =
     r\<lparr> p_name := (case up_name u of None \<Rightarrow> p_name r | Some n \<Rightarrow> n),
        p_description := (case up_description u of None \<Rightarrow> p_description r | Some x \<Rightarrow> Some x),
        p_schema := (case up_schema u of None \<Rightarrow> p_schema r | Some j \<Rightarrow> nullable (Some j)) \<rparr>"

definition touch_project :: "timestamp \<Rightarrow> project_row \<Rightarrow> project_row" where
  "touch_project now r = r\<lparr> p_updatedAt := now \<rparr>"

definition updateProject ::
    "timestamp \<Rightarrow> db option \<Rightarrow> int \<Rightarrow> project_updates \<Rightarrow> err + header \<times> db" where
  "updateProject now dbh projectId updates =
     (case dbh of
        None \<Rightarrow> Inl unavailable
      | Some d \<Rightarrow>
          if up_name updates = None \<and> up_description updates = None \<and> up_schema updates = None
          then Inl (QueryError ''No values to set'')
          else Inr (\<lparr> insertId = 0 \<rparr>,
                    d\<lparr> projects := (projects d)\<lparr> rows :=
                         sql_update (\<lambda>r. p_id r = projectId) (assign_project updates)
                           (touch_project now) (rows (projects d)) \<rparr> \<rparr>))"

definition deleteProject :: "timestamp \<Rightarrow> db option \<Rightarrow> int \<Rightarrow> err + header \<times> db" where
  "deleteProject now dbh projectId =
     (case dbh of
        None \<Rightarrow> Inl unavailable
      | Some d \<Rightarrow>
          Inr (\<lparr> insertId = 0 \<rparr>,
               d\<lparr> projects := (projects d)\<lparr> rows :=
                    sql_update (\<lambda>r. p_id r = projectId) (\<lambda>r. r\<lparr> p_isActive := False \<rparr>)
                      (touch_project now) (rows (projects d)) \<rparr> \<rparr>))"

subsection \<open>API keys\<close>

text \<open>
  The token is \<^verbatim>\<open>sk_\<close>, the clock reading, \<^verbatim>\<open>_\<close> and \<open>rnd\<close>, the digits that
  \<^verbatim>\<open>Math.random().toString(36).substring(2, 15)\<close> produced. The column is unique: the
  engine rejects a token that a row already holds.
\<close>

definition createApiKey ::
    "timestamp \<Rightarrow> string \<Rightarrow> db option \<Rightarrow> int \<Rightarrow> string \<Rightarrow> string list option \<Rightarrow> err + header \<times> db" where
  "createApiKey now rnd dbh projectId name permissions =
     (case dbh of
        None \<Rightarrow> Inl unavailable
      | Some d \<Rightarrow>
          (let key = ''sk_'' @ decimal now @ ''_'' @ rnd
           in if list_ex (\<lambda>r. k_key r = key) (rows (apiKeys d))
              then Inl (QueryError ''Duplicate entry'')
              else
                (let (h, t) = sql_insert (\<lambda>i. \<lparr> k_id = i, k_projectId = projectId, k_key = key,
                                k_name = name,
                                k_permissions = Some (case permissions of
                                                        None \<Rightarrow> [''read'', ''write'']
                                                      | Some ps \<Rightarrow> ps),
                                k_isActive = True, k_lastUsedAt = None,
                                k_createdAt = now, k_updatedAt = now \<rparr>) (apiKeys d)
                 in Inr (h, d\<lparr> apiKeys := t \<rparr>))))"

definition getApiKeysByProjectId :: "db option \<Rightarrow> int \<Rightarrow> err + apikey_row list" where
  "getApiKeysByProjectId dbh projectId =
     (case dbh of
        None \<Rightarrow> Inl unavailable
      | Some d \<Rightarrow> Inr (filter (\<lambda>r. k_projectId r = projectId) (rows (apiKeys d))))"

definition getApiKeyByKey :: "db option \<Rightarrow> string \<Rightarrow> err + apikey_row option" where
  "getApiKeyByKey dbh key =
     (case dbh of
        None \<Rightarrow> Inl unavailable
      | Some d \<Rightarrow> Inr (select_first (\<lambda>r. k_key r = key) (rows (apiKeys d))))"

definition revokeApiKey :: "timestamp \<Rightarrow> db option \<Rightarrow> int \<Rightarrow> err + header \<times> db" where
  "revokeApiKey now dbh apiKeyId =
     (case dbh of
        None \<Rightarrow> Inl unavailable
      | Some d \<Rightarrow>
          Inr (\<lparr> insertId = 0 \<rparr>,
               d\<lparr> apiKeys := (apiKeys d)\<lparr> rows :=
                    sql_update (\<lambda>r. k_id r = apiKeyId) (\<lambda>r. r\<lparr> k_isActive := False \<rparr>)
                      (\<lambda>r. r\<lparr> k_updatedAt := now \<rparr>) (rows (apiKeys d)) \<rparr> \<rparr>))"

subsection \<open>Dynamic data\<close>

text \<open>
  The payload argument is typed \<^verbatim>\<open>any\<close>: \<open>None\<close> is \<^verbatim>\<open>undefined\<close>. The column is
  \<^verbatim>\<open>NOT NULL\<close> without a default, so the engine rejects an insert that gives it no value
  or \<^verbatim>\<open>null\<close>.
\<close>

definition insertDynamicData ::
    "timestamp \<Rightarrow> db option \<Rightarrow> int \<Rightarrow> json option \<Rightarrow> string option \<Rightarrow> string option \<Rightarrow> bool option
       \<Rightarrow> err + header \<times> db" where
  "insertDynamicData now dbh projectId data userId dataType isPublic =
     (case dbh of
        None \<Rightarrow> Inl unavailable
      | Some d \<Rightarrow>
          (case data of
             None \<Rightarrow> Inl (QueryError ''Field data has no default value'')
           | Some JNull \<Rightarrow> Inl (QueryError ''Column data cannot be null'')
           | Some j \<Rightarrow>
               (let (h, t) = sql_insert (\<lambda>i. \<lparr> d_id = i, d_projectId = projectId,
                               d_userId = userId, d_dataType = dataType, d_data = j,
                               d_isPublic = (case isPublic of None \<Rightarrow> False | Some b \<Rightarrow> b),
                               d_createdAt = now, d_updatedAt = now \<rparr>) (dynamicData d)
                in Inr (h, d\<lparr> dynamicData := t \<rparr>))))"

text \<open>
  \<^verbatim>\<open>.limit(limit).offset(offset)\<close>: the query builder writes \<^verbatim>\<open>LIMIT\<close> for a number that is
  not negative and leaves it out otherwise; it writes \<^verbatim>\<open>OFFSET\<close> for a number that is
  truthy and leaves it out otherwise.
\<close>

fun limitClause :: "jsnum \<Rightarrow> jsnum option" where
  "limitClause (Num n) = (if 0 \<le> n then Some (Num n) else None)"
| "limitClause PosInfinity = Some PosInfinity"
| "limitClause NegInfinity = None"
| "limitClause NaN = None"

fun offsetClause :: "jsnum \<Rightarrow> jsnum option" where
  "offsetClause (Num n) = (if n = 0 then None else Some (Num n))"
| "offsetClause PosInfinity = Some PosInfinity"
| "offsetClause NegInfinity = Some NegInfinity"
| "offsetClause NaN = None"

text \<open>
  What the engine makes of the clauses. Without a clause it returns every row, in table
  order. A count is an integer literal from \<open>0\<close> to \<open>2^64 - 1\<close>; the grammar has \<^verbatim>\<open>LIMIT\<close>
  alone and \<^verbatim>\<open>LIMIT\<close> with \<^verbatim>\<open>OFFSET\<close>, and the engine rejects every other statement.
\<close>

definition isCount :: "int \<Rightarrow> bool" where
  "isCount n = (0 \<le> n \<and> n < 2 ^ 64)"

fun sql_page :: "jsnum option \<Rightarrow> jsnum option \<Rightarrow> 'a list \<Rightarrow> err + 'a list" where
  "sql_page None None rs = Inr rs"
| "sql_page (Some (Num n)) None rs =
     (if isCount n then Inr (take (nat n) rs)
      else Inl (QueryError ''You have an error in your SQL syntax''))"
| "sql_page (Some (Num n)) (Some (Num m)) rs =
     (if isCount n \<and> isCount m then Inr (take (nat n) (drop (nat m) rs))
      else Inl (QueryError ''You have an error in your SQL syntax''))"
| "sql_page l off rs = Inl (QueryError ''You have an error in your SQL syntax'')"

text \<open>Both callers pass both numbers, so the defaults of the signature are never used.\<close>

definition getDynamicDataByProjectId ::
    "db option \<Rightarrow> int \<Rightarrow> jsnum \<Rightarrow> jsnum \<Rightarrow> err + datum_row list" where
  "getDynamicDataByProjectId dbh projectId limit offset =
     (case dbh of
        None \<Rightarrow> Inl unavailable
      | Some d \<Rightarrow>
          sql_page (limitClause limit) (offsetClause offset)
            (filter (\<lambda>r. d_projectId r = projectId) (rows (dynamicData d))))"

definition getDynamicDataById :: "db option \<Rightarrow> int \<Rightarrow> err + datum_row option" where
  "getDynamicDataById dbh dataId =
     (case dbh of
        None \<Rightarrow> Inl unavailable
      | Some d \<Rightarrow> Inr (select_first (\<lambda>r. d_id r = dataId) (rows (dynamicData d))))"

text \<open>
  The statement assigns \<open>updatedAt\<close> itself. An \<^verbatim>\<open>undefined\<close> payload is left out of the
  statement; a \<^verbatim>\<open>null\<close> one is rejected when the statement reaches a row.
\<close>

definition updateDynamicData :: "timestamp \<Rightarrow> db option \<Rightarrow> int \<Rightarrow> json option \<Rightarrow> err + header \<times> db" where
  "updateDynamicData now dbh dataId data =
     (case dbh of
        None \<Rightarrow> Inl unavailable
      | Some d \<Rightarrow>
          if data = Some JNull \<and> list_ex (\<lambda>r. d_id r = dataId) (rows (dynamicData d))
          then Inl (QueryError ''Column data cannot be null'')
          else Inr (\<lparr> insertId = 0 \<rparr>,
                    d\<lparr> dynamicData := (dynamicData d)\<lparr> rows :=
                         sql_update (\<lambda>r. d_id r = dataId)
                           (\<lambda>r. r\<lparr> d_data := (case data of None \<Rightarrow> d_data r | Some j \<Rightarrow> j),
                                   d_updatedAt := now \<rparr>)
                           (\<lambda>r. r) (rows (dynamicData d)) \<rparr> \<rparr>))"

definition deleteDynamicData :: "db option \<Rightarrow> int \<Rightarrow> err + header \<times> db" where
  "deleteDynamicData dbh dataId =
     (case dbh of
        None \<Rightarrow> Inl unavailable
      | Some d \<Rightarrow>
          Inr (\<lparr> insertId = 0 \<rparr>,
               d\<lparr> dynamicData := (dynamicData d)\<lparr> rows :=
                    filter (\<lambda>r. d_id r \<noteq> dataId) (rows (dynamicData d)) \<rparr> \<rparr>))"

text \<open>The conditions are pushed in the source's order and joined by \<^verbatim>\<open>and\<close>.\<close>

definition searchDynamicData ::
    "db option \<Rightarrow> int \<Rightarrow> string option \<Rightarrow> string option \<Rightarrow> err + datum_row list" where
  "searchDynamicData dbh projectId userId dataType =
     (case dbh of
        None \<Rightarrow> Inl unavailable
      | Some d \<Rightarrow>
          (let conditions =
                 [\<lambda>r. d_projectId r = projectId]
                 @ (if truthy_str userId then [\<lambda>r. d_userId r = userId] else [])
                 @ (if truthy_str dataType then [\<lambda>r. d_dataType r = dataType] else [])
           in Inr (filter (\<lambda>r. list_all (\<lambda>c. c r) conditions) (rows (dynamicData d)))))"

section \<open>The admin identity service\<close>

text \<open>
  The hashing library is outside the repository: \<open>hashPassword\<close> is the salted hash this
  call computes and \<open>comparePassword\<close> the library's verification, both taken as
  arguments.
\<close>



text \<open>The record a login returns and the admin session cookie holds: no hash in it.\<close>

record AdminSession =
  sess_id :: int
  sess_email :: string
  sess_name :: "string option"

definition authenticateAdmin ::
    "(string \<Rightarrow> string \<Rightarrow> bool) \<Rightarrow> timestamp \<Rightarrow> db option \<Rightarrow> string \<Rightarrow> string
       \<Rightarrow> err + AdminSession option \<times> db" where
  "authenticateAdmin comparePassword now dbh email password =
     (case dbh of
        None \<Rightarrow> Inl unavailable
      | Some d \<Rightarrow>
          (case select_first (\<lambda>r. a_email r = email) (rows (adminUsers d)) of
             None \<Rightarrow> Inr (None, d)
           | Some admin \<Rightarrow>
               if \<not> a_isActive admin then Inr (None, d)
               else if \<not> comparePassword password (a_passwordHash admin) then Inr (None, d)
               else Inr (Some \<lparr> sess_id = a_id admin, sess_email = a_email admin,
                                 sess_name = a_name admin \<rparr>,
                         d\<lparr> adminUsers := (adminUsers d)\<lparr> rows :=
                              sql_update (\<lambda>r. a_id r = a_id admin)
                                (\<lambda>r. r\<lparr> a_lastSignedIn := Some now \<rparr>)
                                (\<lambda>r. r\<lparr> a_updatedAt := now \<rparr>) (rows (adminUsers d)) \<rparr> \<rparr>)))"

definition getAdminById :: "db option \<Rightarrow> int \<Rightarrow> err + admin_row option" where
  "getAdminById dbh adminId =
     (case dbh of
        None \<Rightarrow> Inl unavailable
      | Some d \<Rightarrow> Inr (select_first (\<lambda>r. a_id r = adminId) (rows (adminUsers d))))"

section \<open>The typed procedure router\<close>

text \<open>
  The request context, as its type declares it: the end user the SDK resolved and the
  admin session parsed from the cookie, each \<^verbatim>\<open>null\<close> when it is missing.
\<close>

record TrpcContext =
  user :: "user_row option"
  adminSession :: "AdminSession option"

text \<open>The middleware of \<^verbatim>\<open>adminProcedure\<close>: \<open>body\<close> is what \<^verbatim>\<open>next\<close> runs.\<close>

definition adminProcedure :: "(TrpcContext \<Rightarrow> err + 'a) \<Rightarrow> TrpcContext \<Rightarrow> err + 'a" where
  "adminProcedure body ctx =
     (if user ctx = None \<or> adminSession ctx = None then Inl (TRPCError UNAUTHORIZED)
      else body ctx)"

text \<open>
  \<^verbatim>\<open>ctx.adminSession?.id\<close>: \<^verbatim>\<open>undefined\<close> without a session. Where a procedure tests
  \<^verbatim>\<open>!ctx.adminSession?.id\<close>, the id \<open>0\<close> is falsy as well.
\<close>

definition sessionId :: "TrpcContext \<Rightarrow> int option" where
  "sessionId ctx = map_option sess_id (adminSession ctx)"

text \<open>
  The three lines that open a procedure with an ownership check: fetch the project, then
  \<^verbatim>\<open>if (!project || project.adminUserId !== ctx.adminSession?.id) throw FORBIDDEN\<close>.
\<close>

definition fetchOwned :: "db option \<Rightarrow> int \<Rightarrow> TrpcContext \<Rightarrow> err + project_row" where
  "fetchOwned dbh projectId ctx =
     (case getProjectById dbh projectId of
        Inl e \<Rightarrow> Inl e
      | Inr None \<Rightarrow> Inl (TRPCError FORBIDDEN)
      | Inr (Some project) \<Rightarrow>
          if Some (p_adminUserId project) = sessionId ctx then Inr project
          else Inl (TRPCError FORBIDDEN))"

text \<open>What a procedure returns, and a write's result with the datastore after it.\<close>

datatype reply =
    RAdmin "admin_row option"
  | RProject project_row
  | RProjects "project_row list"
  | RKeys "apikey_row list"
  | RData "datum_row list"
  | RHeader header

definition reading :: "db option \<Rightarrow> ('a \<Rightarrow> reply) \<Rightarrow> err + 'a \<Rightarrow> err + reply \<times> db option" where
  "reading dbh wrap r = (case r of Inl e \<Rightarrow> Inl e | Inr x \<Rightarrow> Inr (wrap x, dbh))"

definition writing :: "err + header \<times> db \<Rightarrow> err + reply \<times> db option" where
  "writing r = (case r of Inl e \<Rightarrow> Inl e | Inr (h, d) \<Rightarrow> Inr (RHeader h, Some d))"

subsection \<open>admin\<close>

definition admin_getAdminInfo :: "db option \<Rightarrow> TrpcContext \<Rightarrow> err + reply \<times> db option" where
  "admin_getAdminInfo dbh =
     adminProcedure (\<lambda>ctx.
       case sessionId ctx of
         None \<Rightarrow> Inl (TRPCError UNAUTHORIZED)
       | Some i \<Rightarrow>
           if i = 0 then Inl (TRPCError UNAUTHORIZED)
           else reading dbh RAdmin (getAdminById dbh i))"

subsection \<open>projects\<close>

definition projects_list :: "db option \<Rightarrow> TrpcContext \<Rightarrow> err + reply \<times> db option" where
  "projects_list dbh =
     adminProcedure (\<lambda>ctx.
       case sessionId ctx of
         None \<Rightarrow> Inl (TRPCError UNAUTHORIZED)
       | Some i \<Rightarrow>
           if i = 0 then Inl (TRPCError UNAUTHORIZED)
           else reading dbh RProjects (getProjectsByAdminId dbh i))"

definition projects_get :: "db option \<Rightarrow> int \<Rightarrow> TrpcContext \<Rightarrow> err + reply \<times> db option" where
  "projects_get dbh projectId =
     adminProcedure (\<lambda>ctx.
       case fetchOwned dbh projectId ctx of
         Inl e \<Rightarrow> Inl e
       | Inr project \<Rightarrow> Inr (RProject project, dbh))"

text \<open>The input schema asks for a name of at least one character.\<close>

definition projects_create ::
    "timestamp \<Rightarrow> db option \<Rightarrow> string \<Rightarrow> string option \<Rightarrow> json option \<Rightarrow> TrpcContext
       \<Rightarrow> err + reply \<times> db option" where
  "projects_create now dbh name description schema =
     adminProcedure (\<lambda>ctx.
       if name = [] then Inl (TRPCError BAD_REQUEST)
       else case sessionId ctx of
              None \<Rightarrow> Inl (TRPCError UNAUTHORIZED)
            | Some i \<Rightarrow>
                if i = 0 then Inl (TRPCError UNAUTHORIZED)
                else writing (createProject now dbh i name description schema))"

definition projects_update ::
    "timestamp \<Rightarrow> db option \<Rightarrow> int \<Rightarrow> project_updates \<Rightarrow> TrpcContext \<Rightarrow> err + reply \<times> db option" where
  "projects_update now dbh projectId updates =
     adminProcedure (\<lambda>ctx.
       case fetchOwned dbh projectId ctx of
         Inl e \<Rightarrow> Inl e
       | Inr project \<Rightarrow> writing (updateProject now dbh projectId updates))"

definition projects_delete :: "timestamp \<Rightarrow> db option \<Rightarrow> int \<Rightarrow> TrpcContext \<Rightarrow> err + reply \<times> db option" where
  "projects_delete now dbh projectId =
     adminProcedure (\<lambda>ctx.
       case fetchOwned dbh projectId ctx of
         Inl e \<Rightarrow> Inl e
       | Inr project \<Rightarrow> writing (deleteProject now dbh projectId))"

subsection \<open>apiKeys\<close>

definition apiKeys_list :: "db option \<Rightarrow> int \<Rightarrow> TrpcContext \<Rightarrow> err + reply \<times> db option" where
  "apiKeys_list dbh projectId =
     adminProcedure (\<lambda>ctx.
       case fetchOwned dbh projectId ctx of
         Inl e \<Rightarrow> Inl e
       | Inr project \<Rightarrow> reading dbh RKeys (getApiKeysByProjectId dbh projectId))"

definition apiKeys_create ::
    "timestamp \<Rightarrow> string \<Rightarrow> db option \<Rightarrow> int \<Rightarrow> string \<Rightarrow> string list option \<Rightarrow> TrpcContext
       \<Rightarrow> err + reply \<times> db option" where
  "apiKeys_create now rnd dbh projectId name permissions =
     adminProcedure (\<lambda>ctx.
       if name = [] then Inl (TRPCError BAD_REQUEST)
       else case fetchOwned dbh projectId ctx of
              Inl e \<Rightarrow> Inl e
            | Inr project \<Rightarrow> writing (createApiKey now rnd dbh projectId name permissions))"

definition apiKeys_revoke :: "timestamp \<Rightarrow> db option \<Rightarrow> int \<Rightarrow> TrpcContext \<Rightarrow> err + reply \<times> db option" where
  "apiKeys_revoke now dbh apiKeyId =
     adminProcedure (\<lambda>ctx. writing (revokeApiKey now dbh apiKeyId))"

subsection \<open>data\<close>

text \<open>The input schema defaults \<^verbatim>\<open>limit\<close> to 100 and \<^verbatim>\<open>offset\<close> to 0.\<close>

definition data_list ::
    "db option \<Rightarrow> int \<Rightarrow> int option \<Rightarrow> int option \<Rightarrow> TrpcContext \<Rightarrow> err + reply \<times> db option" where
  "data_list dbh projectId limit offset =
     adminProcedure (\<lambda>ctx.
       case fetchOwned dbh projectId ctx of
         Inl e \<Rightarrow> Inl e
       | Inr project \<Rightarrow>
           reading dbh RData
             (getDynamicDataByProjectId dbh projectId
                (Num (case limit of None \<Rightarrow> 100 | Some l \<Rightarrow> l))
                (Num (case offset of None \<Rightarrow> 0 | Some off \<Rightarrow> off))))"

definition data_create ::
    "timestamp \<Rightarrow> db option \<Rightarrow> int \<Rightarrow> json option \<Rightarrow> string option \<Rightarrow> string option \<Rightarrow> bool option
       \<Rightarrow> TrpcContext \<Rightarrow> err + reply \<times> db option" where
  "data_create now dbh projectId data userId dataType isPublic =
     adminProcedure (\<lambda>ctx.
       case fetchOwned dbh projectId ctx of
         Inl e \<Rightarrow> Inl e
       | Inr project \<Rightarrow>
           writing (insertDynamicData now dbh projectId data userId dataType isPublic))"

definition data_update ::
    "timestamp \<Rightarrow> db option \<Rightarrow> int \<Rightarrow> json option \<Rightarrow> TrpcContext \<Rightarrow> err + reply \<times> db option" where
  "data_update now dbh dataId data =
     adminProcedure (\<lambda>ctx. writing (updateDynamicData now dbh dataId data))"

definition data_delete :: "db option \<Rightarrow> int \<Rightarrow> TrpcContext \<Rightarrow> err + reply \<times> db option" where
  "data_delete dbh dataId =
     adminProcedure (\<lambda>ctx. writing (deleteDynamicData dbh dataId))"

definition data_search ::
    "db option \<Rightarrow> int \<Rightarrow> string option \<Rightarrow> string option \<Rightarrow> TrpcContext \<Rightarrow> err + reply \<times> db option" where
  "data_search dbh projectId userId dataType =
     adminProcedure (\<lambda>ctx.
       case fetchOwned dbh projectId ctx of
         Inl e \<Rightarrow> Inl e
       | Inr project \<Rightarrow> reading dbh RData (searchDynamicData dbh projectId userId dataType))"

subsection \<open>The router\<close>

text \<open>
  A call names a procedure built on \<^verbatim>\<open>adminProcedure\<close> and carries its input. The
  procedures built on \<^verbatim>\<open>publicProcedure\<close> alone pass no gate and touch only cookies.
\<close>

datatype call =
    GetAdminInfo
  | ProjectsList
  | ProjectsGet int
  | ProjectsCreate string "string option" "json option"
  | ProjectsUpdate int project_updates
  | ProjectsDelete int
  | ApiKeysList int
  | ApiKeysCreate int string "string list option"
  | ApiKeysRevoke int
  | DataList int "int option" "int option"
  | DataCreate int "json option" "string option" "string option" "bool option"
  | DataUpdate int "json option"
  | DataDelete int
  | DataSearch int "string option" "string option"

fun appRouter :: "timestamp \<Rightarrow> string \<Rightarrow> db option \<Rightarrow> call \<Rightarrow> TrpcContext \<Rightarrow> err + reply \<times> db option" where
  "appRouter now rnd dbh GetAdminInfo = admin_getAdminInfo dbh"
| "appRouter now rnd dbh ProjectsList = projects_list dbh"
| "appRouter now rnd dbh (ProjectsGet projectId) = projects_get dbh projectId"
| "appRouter now rnd dbh (ProjectsCreate name description schema) =
     projects_create now dbh name description schema"
| "appRouter now rnd dbh (ProjectsUpdate projectId updates) =
     projects_update now dbh projectId updates"
| "appRouter now rnd dbh (ProjectsDelete projectId) = projects_delete now dbh projectId"
| "appRouter now rnd dbh (ApiKeysList projectId) = apiKeys_list dbh projectId"
| "appRouter now rnd dbh (ApiKeysCreate projectId name permissions) =
     apiKeys_create now rnd dbh projectId name permissions"
| "appRouter now rnd dbh (ApiKeysRevoke apiKeyId) = apiKeys_revoke now dbh apiKeyId"
| "appRouter now rnd dbh (DataList projectId limit offset) = data_list dbh projectId limit offset"
| "appRouter now rnd dbh (DataCreate projectId data userId dataType isPublic) =
     data_create now dbh projectId data userId dataType isPublic"
| "appRouter now rnd dbh (DataUpdate dataId data) = data_update now dbh dataId data"
| "appRouter now rnd dbh (DataDelete dataId) = data_delete dbh dataId"
| "appRouter now rnd dbh (DataSearch projectId userId dataType) =
     data_search dbh projectId userId dataType"

section \<open>The external REST facade\<close>

text \<open>
  Of a request: the \<^verbatim>\<open>X-API-Key\<close> header, the query string, the \<^verbatim>\<open>:id\<close> path parameter
  and the parsed JSON body, of which the handlers read four properties.
\<close>

record body =
  b_data :: "json option"
  b_userId :: "string option"
  b_dataType :: "string option"
  b_isPublic :: "bool option"

record request =
  x_api_key :: "string option"
  query :: "string \<Rightarrow> string option"
  params_id :: string
  body :: body

record pagination =
  pg_limit :: jsnum
  pg_offset :: jsnum
  pg_total :: nat

record project_info =
  pi_id :: int
  pi_name :: string
  pi_description :: "string option"
  pi_isActive :: bool
  pi_createdAt :: timestamp

text \<open>The JSON bodies the handlers send; \<^verbatim>\<open>success: true\<close> is in all of them but the first.\<close>

datatype payload =
    ErrorJson string
  | ListJson "datum_row list" pagination
  | WriteJson string header
  | SearchJson "datum_row list" "string option" "string option"
  | ProjectJson project_info
  | HealthJson string timestamp

record response =
  status :: nat
  payload :: payload

text \<open>\<^verbatim>\<open>res.json\<close> without \<^verbatim>\<open>res.status\<close> answers 200.\<close>

definition json_response :: "payload \<Rightarrow> response" where
  "json_response p = \<lparr> status = 200, payload = p \<rparr>"

definition status_json :: "nat \<Rightarrow> payload \<Rightarrow> response" where
  "status_json code p = \<lparr> status = code, payload = p \<rparr>"

text \<open>
  \<^verbatim>\<open>res.json\<close> serialises its argument before it sends anything, and the serialisation
  throws on a BigInt. The id of a record is one (the column is read in \<^verbatim>\<open>bigint\<close> mode), so
  a body with a record in it is never sent; the other bodies hold no BigInt.
\<close>

fun hasBigInt :: "payload \<Rightarrow> bool" where
  "hasBigInt (ListJson data pg) = (data \<noteq> [])"
| "hasBigInt (SearchJson data userId dataType) = (data \<noteq> [])"
| "hasBigInt p = False"

definition res_json :: "payload \<Rightarrow> err + response" where
  "res_json p =
     (if hasBigInt p then Inl (TypeError ''Do not know how to serialize a BigInt'')
      else Inr (json_response p))"

text \<open>\<^verbatim>\<open>error.message\<close>.\<close>

fun message :: "err \<Rightarrow> string" where
  "message (TRPCError c) =
     (case c of UNAUTHORIZED \<Rightarrow> ''UNAUTHORIZED'' | FORBIDDEN \<Rightarrow> ''FORBIDDEN''
      | BAD_REQUEST \<Rightarrow> ''BAD_REQUEST'')"
| "message (Error m) = m"
| "message (SyntaxError m) = m"
| "message (TypeError m) = m"
| "message (QueryError m) = m"

text \<open>
  What a middleware does: it answers, or calls \<^verbatim>\<open>next()\<close> with what it bound to the
  request, or its promise rejects. \<^verbatim>\<open>!apiKey\<close> holds of a header that is missing and of
  one that is empty.
\<close>

record bound =
  req_apiKey :: apikey_row
  req_projectId :: int

datatype middleware = Answer response | Next bound | Reject err

definition authenticateApiKey :: "db option \<Rightarrow> request \<Rightarrow> middleware" where
  "authenticateApiKey dbh req =
     (case x_api_key req of
        None \<Rightarrow> Answer (status_json 401 (ErrorJson ''Missing API key''))
      | Some apiKey \<Rightarrow>
          if apiKey = [] then Answer (status_json 401 (ErrorJson ''Missing API key''))
          else
            (case getApiKeyByKey dbh apiKey of
               Inl e \<Rightarrow> Reject e
             | Inr None \<Rightarrow> Answer (status_json 401 (ErrorJson ''Invalid or revoked API key''))
             | Inr (Some keyData) \<Rightarrow>
                 if k_isActive keyData
                 then Next \<lparr> req_apiKey = keyData, req_projectId = k_projectId keyData \<rparr>
                 else Answer (status_json 401 (ErrorJson ''Invalid or revoked API key''))))"

subsection \<open>Handlers\<close>

text \<open>
  Each handler runs inside \<^verbatim>\<open>try\<close>: whatever is thrown becomes a 500 with the error's
  message, and the datastore is as it was.
\<close>

definition failed :: "err \<Rightarrow> response" where
  "failed e = status_json 500 (ErrorJson (message e))"

definition effective_limit :: "request \<Rightarrow> jsnum" where
  "effective_limit req =
     Math_min (js_or (parseIntParam (query req ''limit'')) (Num 100)) (Num 1000)"

definition effective_offset :: "request \<Rightarrow> jsnum" where
  "effective_offset req = js_or (parseIntParam (query req ''offset'')) (Num 0)"

definition list_data :: "db option \<Rightarrow> bound \<Rightarrow> request \<Rightarrow> response" where
  "list_data dbh b req =
     (let projectId = req_projectId b;
          limit = effective_limit req;
          offset = effective_offset req
      in case getDynamicDataByProjectId dbh projectId limit offset of
           Inl e \<Rightarrow> failed e
         | Inr data \<Rightarrow>
             (case res_json (ListJson data
                     \<lparr> pg_limit = limit, pg_offset = offset, pg_total = length data \<rparr>) of
                Inl e \<Rightarrow> failed e
              | Inr r \<Rightarrow> r))"

definition insert_data :: "timestamp \<Rightarrow> db option \<Rightarrow> bound \<Rightarrow> request \<Rightarrow> response \<times> db option" where
  "insert_data now dbh b req =
     (let projectId = req_projectId b;
          data = b_data (body req)
      in if \<not> truthy_opt data
         then (status_json 400 (ErrorJson ''Data field is required''), dbh)
         else case insertDynamicData now dbh projectId data (b_userId (body req))
                     (b_dataType (body req)) (b_isPublic (body req)) of
                Inl e \<Rightarrow> (failed e, dbh)
              | Inr (result, d) \<Rightarrow>
                  (status_json 201 (WriteJson ''Data inserted successfully'' result), Some d))"

definition toBigInt :: "string \<Rightarrow> err + int" where
  "toBigInt s =
     (case BigInt s of
        None \<Rightarrow> Inl (SyntaxError (''Cannot convert '' @ s @ '' to a BigInt''))
      | Some n \<Rightarrow> Inr n)"

definition update_data :: "timestamp \<Rightarrow> db option \<Rightarrow> bound \<Rightarrow> request \<Rightarrow> response \<times> db option" where
  "update_data now dbh b req =
     (case toBigInt (params_id req) of
        Inl e \<Rightarrow> (failed e, dbh)
      | Inr dataId \<Rightarrow>
          (let data = b_data (body req)
           in if \<not> truthy_opt data
              then (status_json 400 (ErrorJson ''Data field is required''), dbh)
              else case updateDynamicData now dbh dataId data of
                     Inl e \<Rightarrow> (failed e, dbh)
                   | Inr (result, d) \<Rightarrow>
                       (json_response (WriteJson ''Data updated successfully'' result), Some d)))"

definition delete_data :: "db option \<Rightarrow> bound \<Rightarrow> request \<Rightarrow> response \<times> db option" where
  "delete_data dbh b req =
     (case toBigInt (params_id req) of
        Inl e \<Rightarrow> (failed e, dbh)
      | Inr dataId \<Rightarrow>
          (case deleteDynamicData dbh dataId of
             Inl e \<Rightarrow> (failed e, dbh)
           | Inr (result, d) \<Rightarrow>
               (json_response (WriteJson ''Data deleted successfully'' result), Some d)))"

definition search_data :: "db option \<Rightarrow> bound \<Rightarrow> request \<Rightarrow> response" where
  "search_data dbh b req =
     (let projectId = req_projectId b;
          userId = query req ''userId'';
          dataType = query req ''dataType''
      in case searchDynamicData dbh projectId userId dataType of
           Inl e \<Rightarrow> failed e
         | Inr data \<Rightarrow>
             (case res_json (SearchJson data userId dataType) of
                Inl e \<Rightarrow> failed e
              | Inr r \<Rightarrow> r))"

definition get_project :: "db option \<Rightarrow> bound \<Rightarrow> request \<Rightarrow> response" where
  "get_project dbh b req =
     (case getProjectById dbh (req_projectId b) of
        Inl e \<Rightarrow> failed e
      | Inr None \<Rightarrow> status_json 404 (ErrorJson ''Project not found'')
      | Inr (Some project) \<Rightarrow>
          json_response (ProjectJson
            \<lparr> pi_id = p_id project, pi_name = p_name project,
              pi_description = p_description project, pi_isActive = p_isActive project,
              pi_createdAt = p_createdAt project \<rparr>))"

subsection \<open>Routes\<close>

text \<open>
  A route is the middleware and then the handler. A rejection of the middleware is
  caught by nothing here: the route ends with the error, the middleware has sent no
  answer and the handler does not run.
\<close>

datatype outcome = Sent response | Unhandled err

definition route :: "db option \<Rightarrow> request \<Rightarrow> (bound \<Rightarrow> request \<Rightarrow> response \<times> db option) \<Rightarrow> outcome \<times> db option" where
  "route dbh req handler =
     (case authenticateApiKey dbh req of
        Answer r \<Rightarrow> (Sent r, dbh)
      | Reject e \<Rightarrow> (Unhandled e, dbh)
      | Next b \<Rightarrow> (let (r, dbh') = handler b req in (Sent r, dbh')))"

definition get_v1_data :: "db option \<Rightarrow> request \<Rightarrow> outcome \<times> db option" where
  "get_v1_data dbh req = route dbh req (\<lambda>b r. (list_data dbh b r, dbh))"

definition post_api_v1_data :: "timestamp \<Rightarrow> db option \<Rightarrow> request \<Rightarrow> outcome \<times> db option" where
  "post_api_v1_data now dbh req = route dbh req (insert_data now dbh)"

definition put_api_v1_data_id :: "timestamp \<Rightarrow> db option \<Rightarrow> request \<Rightarrow> outcome \<times> db option" where
  "put_api_v1_data_id now dbh req = route dbh req (update_data now dbh)"

definition delete_api_v1_data_id :: "db option \<Rightarrow> request \<Rightarrow> outcome \<times> db option" where
  "delete_api_v1_data_id dbh req = route dbh req (delete_data dbh)"

definition get_api_v1_data_search :: "db option \<Rightarrow> request \<Rightarrow> outcome \<times> db option" where
  "get_api_v1_data_search dbh req = route dbh req (\<lambda>b r. (search_data dbh b r, dbh))"

definition get_api_v1_project :: "db option \<Rightarrow> request \<Rightarrow> outcome \<times> db option" where
  "get_api_v1_project dbh req = route dbh req (\<lambda>b r. (get_project dbh b r, dbh))"

definition get_api_v1_health :: "timestamp \<Rightarrow> outcome" where
  "get_api_v1_health now = Sent (json_response (HealthJson ''API is healthy'' now))"


section \<open>Example data\<close>


definition example_compare :: "string \<Rightarrow> string \<Rightarrow> bool" where
  "example_compare p h = (h = ''$2a$10$'' @ p)"

definition alice :: admin_row where
  "alice = \<lparr> a_id = 1, a_email = ''a@x.com'', a_passwordHash = ''$2a$10$pw1'',
             a_name = Some ''a'', a_isActive = True, a_createdAt = 100, a_updatedAt = 100,
             a_lastSignedIn = None \<rparr>"

definition bob :: admin_row where
  "bob = \<lparr> a_id = 2, a_email = ''b@x.com'', a_passwordHash = ''$2a$10$pw2'',
           a_name = Some ''b'', a_isActive = True, a_createdAt = 110, a_updatedAt = 110,
           a_lastSignedIn = None \<rparr>"

definition dave :: admin_row where
  "dave = \<lparr> a_id = 4, a_email = ''d@x.com'', a_passwordHash = ''$2a$10$pw4'',
            a_name = Some ''d'', a_isActive = False, a_createdAt = 115, a_updatedAt = 115,
            a_lastSignedIn = None \<rparr>"

definition p1 :: project_row where
  "p1 = \<lparr> p_id = 10, p_adminUserId = 1, p_name = ''P1'', p_description = None,
          p_schema = None, p_isActive = True, p_createdAt = 120, p_updatedAt = 120 \<rparr>"

definition key1 :: apikey_row where
  "key1 = \<lparr> k_id = 7, k_projectId = 10, k_key = ''sk_130_abc'', k_name = ''K'',
            k_permissions = Some [''read'', ''write''], k_isActive = True,
            k_lastUsedAt = None, k_createdAt = 130, k_updatedAt = 130 \<rparr>"

definition datum1 :: datum_row where
  "datum1 = \<lparr> d_id = 5, d_projectId = 10, d_userId = Some ''u1'', d_dataType = Some ''post'',
              d_data = JStr ''hello'', d_isPublic = False, d_createdAt = 140,
              d_updatedAt = 140 \<rparr>"

definition carol :: user_row where
  "carol = \<lparr> u_id = 3, u_openId = ''owner-1'', u_name = Some ''Carol'', u_email = None,
             u_loginMethod = None, u_role = RoleUser, u_createdAt = 90, u_updatedAt = 90,
             u_lastSignedIn = 90 \<rparr>"

definition example_db :: db where
  "example_db =
     \<lparr> users = \<lparr> rows = [carol], nextId = 4 \<rparr>,
       adminUsers = \<lparr> rows = [alice, bob, dave], nextId = 5 \<rparr>,
       projects = \<lparr> rows = [p1], nextId = 11 \<rparr>,
       apiKeys = \<lparr> rows = [key1], nextId = 8 \<rparr>,
       dynamicData = \<lparr> rows = [datum1], nextId = 6 \<rparr> \<rparr>"

text \<open>The context of a request made under the second admin's session.\<close>

definition bob_ctx :: TrpcContext where
  "bob_ctx = \<lparr> user = Some carol,
               adminSession = Some \<lparr> sess_id = 2, sess_email = ''b@x.com'',
                                      sess_name = Some ''b'' \<rparr> \<rparr>"

definition anonymous_ctx :: TrpcContext where
  "anonymous_ctx = \<lparr> user = None, adminSession = None \<rparr>"

text \<open>A request of the REST surface, given by its key header, query, path parameter and payload.\<close>

definition example_request ::
    "string option \<Rightarrow> (string \<Rightarrow> string option) \<Rightarrow> string \<Rightarrow> json option \<Rightarrow> request" where
  "example_request key q ident data =
     \<lparr> x_api_key = key, query = q, params_id = ident,
       body = \<lparr> b_data = data, b_userId = None, b_dataType = None, b_isPublic = None \<rparr> \<rparr>"

text \<open>A query string without parameters, one that gives only \<^verbatim>\<open>limit\<close>, and one that gives
  \<^verbatim>\<open>limit\<close> and \<^verbatim>\<open>offset\<close>.\<close>

definition no_query :: "string \<Rightarrow> string option" where
  "no_query = Map.empty"

definition limit_query :: "string \<Rightarrow> string \<Rightarrow> string option" where
  "limit_query v = [''limit'' \<mapsto> v]"




section \<open>Properties\<close>

lemmas router_defs = admin_getAdminInfo_def projects_list_def projects_get_def
  projects_create_def projects_update_def projects_delete_def apiKeys_list_def
  apiKeys_create_def apiKeys_revoke_def data_list_def data_create_def data_update_def
  data_delete_def data_search_def

lemmas example_defs = example_db_def alice_def bob_def dave_def p1_def key1_def datum1_def carol_def
  bob_ctx_def anonymous_ctx_def

subsection \<open>Ownership checks of the router\<close>

lemma fetchOwned_forbidden:
  "getProjectById dbh projectId = Inr project \<Longrightarrow>
   (case project of None \<Rightarrow> True | Some p \<Rightarrow> Some (p_adminUserId p) \<noteq> sessionId ctx) \<Longrightarrow>
   fetchOwned dbh projectId ctx = Inl (TRPCError FORBIDDEN)"
  by (auto simp add: fetchOwned_def split: option.splits)

text \<open>
  The procedures that do fetch the project answer \<open>FORBIDDEN\<close> for a project that is
  absent or owned by another admin, and reach no other statement: these are
  \<open>projects.get/update/delete\<close>, \<open>apiKeys.list/create\<close> and \<open>data.list/create/search\<close>.
\<close>

lemma owner_check_forbidden:
  assumes gate: "user ctx \<noteq> None" "adminSession ctx \<noteq> None"
    and c: "c \<in> {ProjectsGet projectId, ProjectsUpdate projectId updates,
                 ProjectsDelete projectId, ApiKeysList projectId,
                 ApiKeysCreate projectId (ch # name) permissions,
                 DataList projectId limit offset,
                 DataCreate projectId data userId dataType isPublic,
                 DataSearch projectId userId dataType}"
    and fetched: "getProjectById dbh projectId = Inr project"
    and stranger: "case project of None \<Rightarrow> True
                   | Some p \<Rightarrow> Some (p_adminUserId p) \<noteq> sessionId ctx"
  shows "appRouter now rnd dbh c ctx = Inl (TRPCError FORBIDDEN)"
proof -
  have f: "fetchOwned dbh projectId ctx = Inl (TRPCError FORBIDDEN)"
    using fetched stranger by (rule fetchOwned_forbidden)
  have g: "\<And>proc :: TrpcContext \<Rightarrow> err + reply \<times> db option. adminProcedure proc ctx = proc ctx"
    using gate by (auto simp add: adminProcedure_def)
  show ?thesis
    using c by (auto simp add: router_defs g f)
qed

text \<open>
  C1. The claim asks every procedure that addresses a project, a key or a record to fetch
  the owning project first and to answer \<open>FORBIDDEN\<close> under a session that does not own
  it. \<open>apiKeys.revoke\<close>, \<open>data.update\<close> and \<open>data.delete\<close> fetch nothing: under the
  session of the second admin, who does not own project 10 (the check itself answers
  \<open>FORBIDDEN\<close> under that session), the key of that project is revoked and its record is
  overwritten, or deleted.
\<close>

theorem foreign_session_writes:
  "fetchOwned (Some example_db) 10 bob_ctx = Inl (TRPCError FORBIDDEN)
   \<and> appRouter 2000 ''r'' (Some example_db) (ApiKeysRevoke 7) bob_ctx =
       Inr (RHeader \<lparr> insertId = 0 \<rparr>,
            Some (example_db\<lparr> apiKeys :=
                    \<lparr> rows = [key1\<lparr> k_isActive := False, k_updatedAt := 2000 \<rparr>],
                      nextId = 8 \<rparr> \<rparr>))
   \<and> appRouter 2000 ''r'' (Some example_db) (DataUpdate 5 (Some (JStr ''overwritten''))) bob_ctx =
       Inr (RHeader \<lparr> insertId = 0 \<rparr>,
            Some (example_db\<lparr> dynamicData :=
                    \<lparr> rows = [datum1\<lparr> d_data := JStr ''overwritten'', d_updatedAt := 2000 \<rparr>],
                      nextId = 6 \<rparr> \<rparr>))
   \<and> appRouter 2000 ''r'' (Some example_db) (DataDelete 5) bob_ctx =
       Inr (RHeader \<lparr> insertId = 0 \<rparr>,
            Some (example_db\<lparr> dynamicData := \<lparr> rows = [], nextId = 6 \<rparr> \<rparr>))"
  by (simp add: router_defs example_defs adminProcedure_def writing_def revokeApiKey_def
      updateDynamicData_def deleteDynamicData_def sql_update_def fetchOwned_def
      getProjectById_def select_first_def sessionId_def)

subsection \<open>The admin gate\<close>

text \<open>
  C8. Every procedure built on \<open>adminProcedure\<close> answers \<open>UNAUTHORIZED\<close> when the context
  lacks the end user or the admin session, whatever the datastore and the input are, so
  before its body runs; with both present the gate hands over to the body.
\<close>

theorem admin_gate:
  "(user ctx = None \<or> adminSession ctx = None \<longrightarrow>
      appRouter now rnd dbh c ctx = Inl (TRPCError UNAUTHORIZED))
   \<and> (user ctx \<noteq> None \<and> adminSession ctx \<noteq> None \<longrightarrow>
        adminProcedure proc ctx = proc ctx)"
proof (intro conjI impI)
  assume "user ctx = None \<or> adminSession ctx = None"
  then have gate: "\<And>body :: TrpcContext \<Rightarrow> err + reply \<times> db option.
      adminProcedure body ctx = Inl (TRPCError UNAUTHORIZED)"
    by (simp add: adminProcedure_def)
  show "appRouter now rnd dbh c ctx = Inl (TRPCError UNAUTHORIZED)"
    by (cases c) (simp_all add: gate router_defs)
next
  assume "user ctx \<noteq> None \<and> adminSession ctx \<noteq> None"
  then show "adminProcedure proc ctx = proc ctx"
    by (auto simp add: adminProcedure_def)
qed

theorem admin_gate_witness:
  "appRouter 0 [] None (DataDelete 5) anonymous_ctx = Inl (TRPCError UNAUTHORIZED)
   \<and> adminProcedure (\<lambda>ctx. Inr (RProjects [], None)) bob_ctx = Inr (RProjects [], None)"
  using admin_gate [where ctx = anonymous_ctx and now = 0 and rnd = "[]" and dbh = None
      and c = "DataDelete 5"]
    admin_gate [where ctx = bob_ctx and proc = "\<lambda>ctx. Inr (RProjects [], None)"]
  by (simp add: anonymous_ctx_def bob_ctx_def)

subsection \<open>A datastore that is not available\<close>

text \<open>
  C2, as the claim states it, fails: without a connection \<open>getUserByOpenId\<close> logs a
  warning and returns \<^verbatim>\<open>undefined\<close>; it does not throw.
\<close>

theorem getUserByOpenId_returns_undefined:
  "getUserByOpenId None ''owner-1'' = Inr None
   \<and> getUserByOpenId None ''owner-1'' \<noteq> Inl (Error ''Database not available'')"
  by (simp add: getUserByOpenId_def)

text \<open>
  C2, amended. Without a connection every function of the layer throws
  \<^verbatim>\<open>Database not available\<close>, except \<open>getUserByOpenId\<close>, which returns \<^verbatim>\<open>undefined\<close>, and
  \<open>upsertUser\<close>, which returns normally and leaves no datastore behind when the identifier
  is not empty, and throws its validation error when it is.
\<close>

theorem unavailable_datastore:
  "createProject now None adminUserId name description schema
     = Inl (Error ''Database not available'')
   \<and> getProjectsByAdminId None adminUserId = Inl (Error ''Database not available'')
   \<and> getProjectById None projectId = Inl (Error ''Database not available'')
   \<and> updateProject now None projectId updates = Inl (Error ''Database not available'')
   \<and> deleteProject now None projectId = Inl (Error ''Database not available'')
   \<and> createApiKey now rnd None projectId name permissions
       = Inl (Error ''Database not available'')
   \<and> getApiKeysByProjectId None projectId = Inl (Error ''Database not available'')
   \<and> getApiKeyByKey None key = Inl (Error ''Database not available'')
   \<and> revokeApiKey now None apiKeyId = Inl (Error ''Database not available'')
   \<and> insertDynamicData now None projectId data userId dataType isPublic
       = Inl (Error ''Database not available'')
   \<and> getDynamicDataByProjectId None projectId limit offset
       = Inl (Error ''Database not available'')
   \<and> getDynamicDataById None dataId = Inl (Error ''Database not available'')
   \<and> updateDynamicData now None dataId data = Inl (Error ''Database not available'')
   \<and> deleteDynamicData None dataId = Inl (Error ''Database not available'')
   \<and> searchDynamicData None projectId userId dataType
       = Inl (Error ''Database not available'')
   \<and> getUserByOpenId None openId = Inr None
   \<and> (iu_openId u \<noteq> [] \<longrightarrow> upsertUser ownerOpenId now None u = Inr None)
   \<and> (iu_openId u = [] \<longrightarrow>
        upsertUser ownerOpenId now None u = Inl (Error ''User openId is required for upsert''))"
  by (simp add: createProject_def getProjectsByAdminId_def getProjectById_def updateProject_def
      deleteProject_def createApiKey_def getApiKeysByProjectId_def getApiKeyByKey_def
      revokeApiKey_def insertDynamicData_def getDynamicDataByProjectId_def
      getDynamicDataById_def updateDynamicData_def deleteDynamicData_def searchDynamicData_def
      getUserByOpenId_def upsertUser_def unavailable_def)

theorem unavailable_datastore_witness:
  "upsertUser ''owner-1'' 2000 None
     \<lparr> iu_openId = ''u-7'', iu_name = None, iu_email = None, iu_loginMethod = None,
       iu_lastSignedIn = None, iu_role = None \<rparr> = Inr None
   \<and> upsertUser ''owner-1'' 2000 None
     \<lparr> iu_openId = [], iu_name = None, iu_email = None, iu_loginMethod = None,
       iu_lastSignedIn = None, iu_role = None \<rparr>
       = Inl (Error ''User openId is required for upsert'')"
  using unavailable_datastore [where ownerOpenId = "''owner-1''" and now = 2000 and
      u = "\<lparr> iu_openId = ''u-7'', iu_name = None, iu_email = None, iu_loginMethod = None,
             iu_lastSignedIn = None, iu_role = None \<rparr>"]
    unavailable_datastore [where ownerOpenId = "''owner-1''" and now = 2000 and
      u = "\<lparr> iu_openId = [], iu_name = None, iu_email = None, iu_loginMethod = None,
             iu_lastSignedIn = None, iu_role = None \<rparr>"]
  by simp

subsection \<open>Statements on rows\<close>

lemma length_sql_update [simp]: "length (sql_update cond assign touch rs) = length rs"
  by (simp add: sql_update_def)

lemma sql_update_Nil [simp]: "sql_update cond assign touch [] = []"
  by (simp add: sql_update_def)

lemma sql_update_Cons:
  "sql_update cond assign touch (r # rs) =
     (if cond r then (if assign r = r then r else touch (assign r)) else r)
       # sql_update cond assign touch rs"
  by (simp add: sql_update_def)

lemma sql_update_untouched:
  "(\<And>r. r \<in> set rs \<Longrightarrow> \<not> cond r) \<Longrightarrow> sql_update cond assign touch rs = rs"
  by (induction rs) (simp_all add: sql_update_Cons)

lemma filter_sql_update:
  assumes "\<And>r. key (assign r) = key r" and "\<And>r. key (touch r) = key r"
  shows "filter (\<lambda>r. key r = k) (sql_update cond assign touch rs)
         = sql_update cond assign touch (filter (\<lambda>r. key r = k) rs)"
  by (induction rs) (simp_all add: sql_update_Cons assms)


lemma select_first_sql_update:
  assumes "\<And>r. key (assign r) = key r" and "\<And>r. key (touch r) = key r"
  shows "select_first (\<lambda>r. key r = k) (sql_update cond assign touch rs)
         = map_option (\<lambda>r. if cond r then (if assign r = r then r else touch (assign r)) else r)
             (select_first (\<lambda>r. key r = k) rs)"
proof -
  have "filter (\<lambda>r. key r = k) (sql_update cond assign touch rs)
         = sql_update cond assign touch (filter (\<lambda>r. key r = k) rs)"
    using assms by (rule filter_sql_update)
  then show ?thesis
    by (cases "filter (\<lambda>r. key r = k) rs") (simp_all add: select_first_def sql_update_Cons)
qed

lemma select_first_other_key:
  assumes "\<And>r. key (assign r) = key r" and "\<And>r. key (touch r) = key r" and "q \<noteq> k"
  shows "select_first (\<lambda>r. key r = q) (sql_update (\<lambda>r. key r = k) assign touch rs)
         = select_first (\<lambda>r. key r = q) rs"
proof -
  have "filter (\<lambda>r. key r = q) (sql_update (\<lambda>r. key r = k) assign touch rs)
         = sql_update (\<lambda>r. key r = k) assign touch (filter (\<lambda>r. key r = q) rs)"
    using assms(1,2) by (rule filter_sql_update)
  also have "\<dots> = filter (\<lambda>r. key r = q) rs"
    using assms(3) by (intro sql_update_untouched) auto
  finally show ?thesis by (simp add: select_first_def)
qed

lemma filter_unique_key:
  "distinct (map key rs) \<Longrightarrow> a \<in> set rs \<Longrightarrow> filter (\<lambda>r. key r = key a) rs = [a]"
proof (induction rs)
  case Nil
  then show ?case by simp
next
  case (Cons r rs)
  show ?case
  proof (cases "r = a")
    case True
    have "key a \<notin> key ` set rs" using Cons.prems(1) True by simp
    then have "filter (\<lambda>r. key r = key a) rs = []"
      by (force simp add: filter_empty_conv image_iff)
    with True show ?thesis by simp
  next
    case False
    then have in_rs: "a \<in> set rs" using Cons.prems(2) by simp
    then have "key r \<noteq> key a" using Cons.prems(1) by auto
    moreover have "filter (\<lambda>r. key r = key a) rs = [a]"
      using Cons.IH Cons.prems(1) in_rs by simp
    ultimately show ?thesis by simp
  qed
qed

lemma select_first_unique_key:
  "distinct (map key rs) \<Longrightarrow> a \<in> set rs \<Longrightarrow> select_first (\<lambda>r. key r = key a) rs = Some a"
  by (simp add: select_first_def filter_unique_key)

lemma select_first_absent:
  "(\<And>r. r \<in> set rs \<Longrightarrow> \<not> cond r) \<Longrightarrow> select_first cond rs = None"
  by (simp add: select_first_def filter_empty_conv [THEN iffD2])

lemma select_first_Some_ex:
  "select_first cond rs = Some r \<Longrightarrow> list_ex cond rs"
  by (auto simp add: select_first_def list_ex_iff filter_eq_Cons_iff split: list.splits)

lemma supplied_simps [simp]:
  "s_name (supplied owner u) = iu_name u"
  "s_email (supplied owner u) = iu_email u"
  "s_loginMethod (supplied owner u) = iu_loginMethod u"
  "s_lastSignedIn (supplied owner u) = iu_lastSignedIn u"
  "s_role (supplied owner u) =
     (case iu_role u of Some r \<Rightarrow> Some r
      | None \<Rightarrow> if iu_openId u = owner then Some RoleAdmin else None)"
  by (simp_all add: supplied_def)

subsection \<open>Seeing a user again\<close>

text \<open>
  C3, as the claim states it, fails for the configured owner: with no field supplied at
  all, the stored role of the owner's record becomes \<open>admin\<close> and its last-signed-in is
  not refreshed, because the role the function adds counts as a key of the update set.
\<close>

theorem upsertUser_owner_role_counterexample:
  "upsertUser ''owner-1'' 2000 (Some example_db)
     \<lparr> iu_openId = ''owner-1'', iu_name = None, iu_email = None, iu_loginMethod = None,
       iu_lastSignedIn = None, iu_role = None \<rparr>
   = Inr (Some (example_db\<lparr> users :=
            \<lparr> rows = [carol\<lparr> u_role := RoleAdmin, u_updatedAt := 2000 \<rparr>], nextId = 4 \<rparr> \<rparr>))
   \<and> u_role carol \<noteq> RoleAdmin
   \<and> u_lastSignedIn (carol\<lparr> u_role := RoleAdmin, u_updatedAt := 2000 \<rparr>) \<noteq> 2000"
  by (simp add: upsertUser_def users_insert_onDuplicateKeyUpdate_def upsert_updateSet_def
      upsert_values_def supplied_def no_keys_def assign_user_def sql_update_def example_defs)

text \<open>
  C3, amended. For a record already present, \<open>upsertUser\<close> overwrites name, email, login
  method, last-signed-in and role where the argument supplies them; where the role is not
  supplied and the identifier is the configured owner's, the role becomes \<open>admin\<close>;
  last-signed-in becomes \<open>now\<close> when nothing was supplied and the identifier is not the
  owner's. Id, identifier and created-at keep their values, and so does every field not
  named above; the engine sets updated-at to \<open>now\<close> when the row changed. No row is added,
  rows of other identifiers read as before, and the other tables are the same.
\<close>

theorem upsertUser_repeat_sight:
  assumes valid: "iu_openId u \<noteq> []"
    and stored: "getUserByOpenId (Some d) (iu_openId u) = Inr (Some r)"
  shows "\<exists>d' r'.
      upsertUser ownerOpenId now (Some d) u = Inr (Some d')
    \<and> getUserByOpenId (Some d') (iu_openId u) = Inr (Some r')
    \<and> u_name r' = (case iu_name u of None \<Rightarrow> u_name r | Some v \<Rightarrow> v)
    \<and> u_email r' = (case iu_email u of None \<Rightarrow> u_email r | Some v \<Rightarrow> v)
    \<and> u_loginMethod r' = (case iu_loginMethod u of None \<Rightarrow> u_loginMethod r | Some v \<Rightarrow> v)
    \<and> u_role r' = (case iu_role u of
                     Some x \<Rightarrow> x
                   | None \<Rightarrow> if iu_openId u = ownerOpenId then RoleAdmin else u_role r)
    \<and> u_lastSignedIn r' = (case iu_lastSignedIn u of
                     Some t \<Rightarrow> t
                   | None \<Rightarrow>
                       if iu_name u = None \<and> iu_email u = None \<and> iu_loginMethod u = None
                          \<and> iu_role u = None \<and> iu_openId u \<noteq> ownerOpenId
                       then now else u_lastSignedIn r)
    \<and> u_id r' = u_id r \<and> u_openId r' = u_openId r \<and> u_createdAt r' = u_createdAt r
    \<and> u_updatedAt r' = (if r'\<lparr> u_updatedAt := u_updatedAt r \<rparr> = r then u_updatedAt r else now)
    \<and> length (rows (users d')) = length (rows (users d))
    \<and> (\<forall>q. q \<noteq> iu_openId u \<longrightarrow>
          getUserByOpenId (Some d') q = getUserByOpenId (Some d) q)
    \<and> adminUsers d' = adminUsers d \<and> projects d' = projects d
    \<and> apiKeys d' = apiKeys d \<and> dynamicData d' = dynamicData d"
proof -
  let ?k = "iu_openId u"
  let ?upd = "upsert_updateSet ownerOpenId now u"
  let ?touch = "\<lambda>r. r\<lparr> u_updatedAt := now \<rparr>"
  let ?rows' = "sql_update (\<lambda>r. u_openId r = ?k) (assign_user ?upd) ?touch (rows (users d))"
  let ?d' = "d\<lparr> users := (users d)\<lparr> rows := ?rows' \<rparr> \<rparr>"
  let ?a = "assign_user ?upd r"
  let ?r' = "if ?a = r then r else ?touch ?a"
  have sel: "select_first (\<lambda>r. u_openId r = ?k) (rows (users d)) = Some r"
    using stored by (simp add: getUserByOpenId_def)
  then have ex: "list_ex (\<lambda>r. u_openId r = ?k) (rows (users d))"
    by (rule select_first_Some_ex)
  have key: "u_openId r = ?k"
    using sel by (auto simp add: select_first_def filter_eq_Cons_iff split: list.splits)
  have keep_a: "\<And>x. u_openId (assign_user ?upd x) = u_openId x"
    by (simp add: assign_user_def)
  have keep_t: "\<And>x. u_openId (?touch x) = u_openId x"
    by simp
  have run: "upsertUser ownerOpenId now (Some d) u = Inr (Some ?d')"
    using valid ex by (simp add: upsertUser_def users_insert_onDuplicateKeyUpdate_def)
  have "select_first (\<lambda>r. u_openId r = ?k) ?rows'
        = map_option (\<lambda>r. if u_openId r = ?k then (if assign_user ?upd r = r then r
             else ?touch (assign_user ?upd r)) else r)
            (select_first (\<lambda>r. u_openId r = ?k) (rows (users d)))"
    using keep_a keep_t by (rule select_first_sql_update)
  then have got: "getUserByOpenId (Some ?d') ?k = Inr (Some ?r')"
    using sel key by (simp add: getUserByOpenId_def)
  have others: "\<forall>q. q \<noteq> ?k \<longrightarrow> getUserByOpenId (Some ?d') q = getUserByOpenId (Some d) q"
  proof (intro allI impI)
    fix q assume "q \<noteq> ?k"
    with keep_a keep_t
    have "select_first (\<lambda>r. u_openId r = q) ?rows'
          = select_first (\<lambda>r. u_openId r = q) (rows (users d))"
      by (rule select_first_other_key)
    then show "getUserByOpenId (Some ?d') q = getUserByOpenId (Some d) q"
      by (simp add: getUserByOpenId_def)
  qed
  have a_name: "u_name ?a = (case iu_name u of None \<Rightarrow> u_name r | Some v \<Rightarrow> v)"
    and a_email: "u_email ?a = (case iu_email u of None \<Rightarrow> u_email r | Some v \<Rightarrow> v)"
    and a_login: "u_loginMethod ?a = (case iu_loginMethod u of None \<Rightarrow> u_loginMethod r | Some v \<Rightarrow> v)"
    and a_role: "u_role ?a = (case iu_role u of Some x \<Rightarrow> x
                   | None \<Rightarrow> if iu_openId u = ownerOpenId then RoleAdmin else u_role r)"
    and a_last: "u_lastSignedIn ?a = (case iu_lastSignedIn u of
                     Some t \<Rightarrow> t
                   | None \<Rightarrow>
                       if iu_name u = None \<and> iu_email u = None \<and> iu_loginMethod u = None
                          \<and> iu_role u = None \<and> iu_openId u \<noteq> ownerOpenId
                       then now else u_lastSignedIn r)"
    and a_rest: "u_id ?a = u_id r" "u_openId ?a = u_openId r" "u_createdAt ?a = u_createdAt r"
       "u_updatedAt ?a = u_updatedAt r"
    by (auto simp add: assign_user_def upsert_updateSet_def no_keys_def Let_def
        split: option.splits)
  have fields: "u_name ?r' = u_name ?a" "u_email ?r' = u_email ?a"
    "u_loginMethod ?r' = u_loginMethod ?a" "u_role ?r' = u_role ?a"
    "u_lastSignedIn ?r' = u_lastSignedIn ?a" "u_id ?r' = u_id ?a"
    "u_openId ?r' = u_openId ?a" "u_createdAt ?r' = u_createdAt ?a"
    by (simp_all; metis)+
  have upd_at: "u_updatedAt ?r' = (if ?r'\<lparr> u_updatedAt := u_updatedAt r \<rparr> = r then u_updatedAt r else now)"
  proof (cases "?a = r")
    case True
    then show ?thesis by simp
  next
    case False
    have "(?touch ?a)\<lparr> u_updatedAt := u_updatedAt r \<rparr> = ?a"
      using a_rest(4) by (metis user_row.surjective user_row.update_convs(8))
    with False show ?thesis by simp
  qed
  show ?thesis
    apply (rule exI [where x = ?d'], rule exI [where x = ?r'])
    apply (intro conjI)
    apply (rule run)
    apply (rule got)
    apply (simp only: fields a_name)
    apply (simp only: fields a_email)
    apply (simp only: fields a_login)
    apply (simp only: fields a_role)
    apply (simp only: fields a_last)
    apply (simp only: fields a_rest)
    apply (simp only: fields a_rest)
    apply (simp only: fields a_rest)
    apply (rule upd_at)
    apply simp
    apply (rule others)
    apply simp_all
    done
qed


theorem upsertUser_repeat_sight_witness:
  "getUserByOpenId (Some example_db) ''owner-1'' = Inr (Some carol)
   \<and> (\<exists>d' r'.
        upsertUser ''someone-else'' 2000 (Some example_db)
          \<lparr> iu_openId = ''owner-1'', iu_name = Some (Some ''Carol B''), iu_email = None,
            iu_loginMethod = None, iu_lastSignedIn = None, iu_role = None \<rparr> = Inr (Some d')
        \<and> getUserByOpenId (Some d') ''owner-1'' = Inr (Some r')
        \<and> u_name r' = Some ''Carol B'' \<and> u_role r' = RoleUser \<and> u_lastSignedIn r' = 90
        \<and> u_id r' = 3)"
proof -
  have stored: "getUserByOpenId (Some example_db) ''owner-1'' = Inr (Some carol)"
    by (simp add: getUserByOpenId_def select_first_def example_defs)
  show ?thesis
    using stored
      upsertUser_repeat_sight [where d = example_db and r = carol and now = 2000
        and ownerOpenId = "''someone-else''"
        and u = "\<lparr> iu_openId = ''owner-1'', iu_name = Some (Some ''Carol B''), iu_email = None,
            iu_loginMethod = None, iu_lastSignedIn = None, iu_role = None \<rparr>"]
    by (simp add: carol_def) blast
qed

subsection \<open>Admin login\<close>

text \<open>
  C4. On a table whose ids and emails are unique, as the schema declares them,
  \<open>authenticateAdmin\<close> returns \<^verbatim>\<open>null\<close> and leaves the datastore alone when no record has
  the email, when the record is inactive, and when the password does not verify against
  the stored hash; otherwise it returns the record's id, email and name (the type of the
  result has no field for the hash) and the record read back by id has last-signed-in
  \<open>now\<close> with its other columns as before.
\<close>

theorem authenticateAdmin_outcomes:
  assumes pk: "distinct (map a_id (rows (adminUsers d)))"
    and uq: "distinct (map a_email (rows (adminUsers d)))"
  shows
    "((\<forall>r \<in> set (rows (adminUsers d)). a_email r \<noteq> email) \<longrightarrow>
        authenticateAdmin comparePassword now (Some d) email password = Inr (None, d))
     \<and> (\<forall>admin \<in> set (rows (adminUsers d)). a_email admin = email \<longrightarrow>
          (\<not> a_isActive admin \<longrightarrow>
             authenticateAdmin comparePassword now (Some d) email password = Inr (None, d))
        \<and> (\<not> comparePassword password (a_passwordHash admin) \<longrightarrow>
             authenticateAdmin comparePassword now (Some d) email password = Inr (None, d))
        \<and> (a_isActive admin \<and> comparePassword password (a_passwordHash admin) \<longrightarrow>
             (\<exists>d' admin'.
                authenticateAdmin comparePassword now (Some d) email password
                  = Inr (Some \<lparr> sess_id = a_id admin, sess_email = email,
                                 sess_name = a_name admin \<rparr>, d')
                \<and> getAdminById (Some d') (a_id admin) = Inr (Some admin')
                \<and> a_lastSignedIn admin' = Some now
                \<and> a_id admin' = a_id admin \<and> a_email admin' = a_email admin
                \<and> a_passwordHash admin' = a_passwordHash admin
                \<and> a_name admin' = a_name admin \<and> a_isActive admin' = a_isActive admin
                \<and> a_createdAt admin' = a_createdAt admin)))"
proof (intro conjI impI ballI)
  assume "\<forall>r \<in> set (rows (adminUsers d)). a_email r \<noteq> email"
  then have "select_first (\<lambda>r. a_email r = email) (rows (adminUsers d)) = None"
    by (intro select_first_absent) auto
  then show "authenticateAdmin comparePassword now (Some d) email password = Inr (None, d)"
    by (simp add: authenticateAdmin_def)
next
  fix admin
  assume mem: "admin \<in> set (rows (adminUsers d))" and em: "a_email admin = email"
  have sel: "select_first (\<lambda>r. a_email r = email) (rows (adminUsers d)) = Some admin"
    using select_first_unique_key [OF uq mem] em by simp
  {
    assume "\<not> a_isActive admin"
    then show "authenticateAdmin comparePassword now (Some d) email password = Inr (None, d)"
      using sel by (simp add: authenticateAdmin_def)
  next
    assume "\<not> comparePassword password (a_passwordHash admin)"
    then show "authenticateAdmin comparePassword now (Some d) email password = Inr (None, d)"
      using sel by (simp add: authenticateAdmin_def)
  next
    assume ok: "a_isActive admin \<and> comparePassword password (a_passwordHash admin)"
    let ?assign = "\<lambda>r. r\<lparr> a_lastSignedIn := Some now \<rparr>"
    let ?touch = "\<lambda>r. r\<lparr> a_updatedAt := now \<rparr>"
    let ?rows' = "sql_update (\<lambda>r. a_id r = a_id admin) ?assign ?touch (rows (adminUsers d))"
    let ?d' = "d\<lparr> adminUsers := (adminUsers d)\<lparr> rows := ?rows' \<rparr> \<rparr>"
    let ?admin' = "if ?assign admin = admin then admin else ?touch (?assign admin)"
    have run: "authenticateAdmin comparePassword now (Some d) email password
                  = Inr (Some \<lparr> sess_id = a_id admin, sess_email = email,
                                 sess_name = a_name admin \<rparr>, ?d')"
      using sel ok em by (simp add: authenticateAdmin_def)
    have "select_first (\<lambda>r. a_id r = a_id admin) ?rows'
          = map_option (\<lambda>r. if a_id r = a_id admin
                             then (if ?assign r = r then r else ?touch (?assign r)) else r)
              (select_first (\<lambda>r. a_id r = a_id admin) (rows (adminUsers d)))"
      by (rule select_first_sql_update) simp_all
    also have "select_first (\<lambda>r. a_id r = a_id admin) (rows (adminUsers d)) = Some admin"
      using pk mem by (rule select_first_unique_key)
    finally have got: "getAdminById (Some ?d') (a_id admin) = Inr (Some ?admin')"
      by (simp add: getAdminById_def)
    have last: "a_lastSignedIn ?admin' = Some now"
      by (cases "?assign admin = admin") (simp_all, metis admin_row.select_convs(8) admin_row.surjective admin_row.update_convs(8))
    have rest: "a_id ?admin' = a_id admin" "a_email ?admin' = a_email admin"
      "a_passwordHash ?admin' = a_passwordHash admin" "a_name ?admin' = a_name admin"
      "a_isActive ?admin' = a_isActive admin" "a_createdAt ?admin' = a_createdAt admin"
      by simp_all
    show "\<exists>d' admin'.
                authenticateAdmin comparePassword now (Some d) email password
                  = Inr (Some \<lparr> sess_id = a_id admin, sess_email = email,
                                 sess_name = a_name admin \<rparr>, d')
                \<and> getAdminById (Some d') (a_id admin) = Inr (Some admin')
                \<and> a_lastSignedIn admin' = Some now
                \<and> a_id admin' = a_id admin \<and> a_email admin' = a_email admin
                \<and> a_passwordHash admin' = a_passwordHash admin
                \<and> a_name admin' = a_name admin \<and> a_isActive admin' = a_isActive admin
                \<and> a_createdAt admin' = a_createdAt admin"
      using run got last rest by blast
  }
qed


theorem authenticateAdmin_outcomes_witness:
  "distinct (map a_id (rows (adminUsers example_db)))
   \<and> distinct (map a_email (rows (adminUsers example_db)))
   \<and> authenticateAdmin example_compare 2000 (Some example_db) ''nobody@x.com'' ''pw1''
       = Inr (None, example_db)
   \<and> authenticateAdmin example_compare 2000 (Some example_db) ''d@x.com'' ''pw4''
       = Inr (None, example_db)
   \<and> authenticateAdmin example_compare 2000 (Some example_db) ''a@x.com'' ''guess''
       = Inr (None, example_db)
   \<and> (\<exists>d' admin'.
         authenticateAdmin example_compare 2000 (Some example_db) ''a@x.com'' ''pw1''
           = Inr (Some \<lparr> sess_id = 1, sess_email = ''a@x.com'', sess_name = Some ''a'' \<rparr>, d')
         \<and> getAdminById (Some d') 1 = Inr (Some admin')
         \<and> a_lastSignedIn admin' = Some 2000)"
proof -
  have pk: "distinct (map a_id (rows (adminUsers example_db)))"
    and uq: "distinct (map a_email (rows (adminUsers example_db)))"
    by (simp_all add: example_defs)
  note t = authenticateAdmin_outcomes [OF pk uq, where comparePassword = example_compare
      and now = 2000]
  have nobody: "authenticateAdmin example_compare 2000 (Some example_db) ''nobody@x.com'' ''pw1''
       = Inr (None, example_db)"
    using t [where email = "''nobody@x.com''" and password = "''pw1''"]
    by (simp add: example_defs)
  have inactive: "authenticateAdmin example_compare 2000 (Some example_db) ''d@x.com'' ''pw4''
       = Inr (None, example_db)"
    using t [where email = "''d@x.com''" and password = "''pw4''"]
    by (simp add: example_defs)
  have guess: "authenticateAdmin example_compare 2000 (Some example_db) ''a@x.com'' ''guess''
       = Inr (None, example_db)"
    using t [where email = "''a@x.com''" and password = "''guess''"]
    by (simp add: example_defs example_compare_def)
  have ok: "\<exists>d' admin'.
         authenticateAdmin example_compare 2000 (Some example_db) ''a@x.com'' ''pw1''
           = Inr (Some \<lparr> sess_id = 1, sess_email = ''a@x.com'', sess_name = Some ''a'' \<rparr>, d')
         \<and> getAdminById (Some d') 1 = Inr (Some admin')
         \<and> a_lastSignedIn admin' = Some 2000"
    using t [where email = "''a@x.com''" and password = "''pw1''"]
    by (simp add: example_db_def alice_def bob_def dave_def example_compare_def) blast
  show ?thesis using pk uq nobody inactive guess ok by blast
qed

subsection \<open>Creating an admin twice\<close>









subsection \<open>Pagination of the list endpoint\<close>

lemmas parse_defs = parseIntParam_def parseInt_def isWhite1_def isWhite2_def isWhite3_def
  isDigit_def digitVal_def digitsVal_def toNumber_def roundDouble_def


lemma bits_upper: "n < 2 ^ bits n"
proof (induction n rule: bits.induct)
  case (1 n)
  show ?case
  proof (cases "n = 0")
    case True
    then show ?thesis by simp
  next
    case False
    then have "n div 2 < 2 ^ bits (n div 2)" by (rule "1.IH")
    then have "n < 2 * 2 ^ bits (n div 2)" by linarith
    with False show ?thesis by (subst bits.simps) simp
  qed
qed

lemma bits_lower: "0 < n \<Longrightarrow> 2 ^ (bits n - 1) \<le> n"
proof (induction n rule: bits.induct)
  case (1 n)
  then have pos: "n \<noteq> 0" by simp
  have step: "bits n = Suc (bits (n div 2))"
    using pos by (subst bits.simps) simp
  show ?case
  proof (cases "n div 2 = 0")
    case True
    then have "bits (n div 2) = 0" by (simp add: bits.simps)
    with step "1.prems" show ?thesis by simp
  next
    case False
    then have ih: "2 ^ (bits (n div 2) - 1) \<le> n div 2"
      using "1.IH" pos by simp
    from False have "bits (n div 2) = Suc (bits (n div 2 div 2))"
      by (subst bits.simps) simp
    then have "bits (n div 2) = Suc (bits (n div 2) - 1)"
      by simp
    then have "(2::nat) ^ bits (n div 2) = 2 * 2 ^ (bits (n div 2) - 1)"
      by (metis power_Suc)
    also have "\<dots> \<le> 2 * (n div 2)" using ih by simp
    also have "\<dots> \<le> n" by simp
    finally show ?thesis using step by simp
  qed
qed





lemma bits_eq:
  assumes lo: "2 ^ k \<le> n" and hi: "n < 2 ^ Suc k"
  shows "bits n = Suc k"
proof -
  have "n < 2 ^ bits n" by (rule bits_upper)
  with lo have lt: "(2::nat) ^ k < 2 ^ bits n" by linarith
  have a: "k < bits n" by (rule power_less_imp_less_exp [OF _ lt]) simp
  have "0 < n" using lo by (metis less_le_trans zero_less_numeral zero_less_power)
  then have "2 ^ (bits n - 1) \<le> n" by (rule bits_lower)
  with hi have lt2: "(2::nat) ^ (bits n - 1) < 2 ^ Suc k" by linarith
  have "bits n - 1 < Suc k" by (rule power_less_imp_less_exp [OF _ lt2]) simp
  with a show ?thesis by linarith
qed

lemma parseInt_rounds: "parseIntParam (Some ''9007199254740993'') = Num 9007199254740992"
proof -
  have "bits 9007199254740993 = Suc 53"
    by (rule bits_eq) simp_all
  then show ?thesis
    by (simp add: parse_defs Let_def)
qed











text \<open>A no-break space before the digits is skipped.\<close>

lemma parseInt_skips_nbsp: "parseIntParam (Some [CHR 0xC2, CHR 0xA0, CHR ''7'']) = Num 7"
  by (simp add: parse_defs)



subsection \<open>The API key middleware\<close>

text \<open>
  C7, as the claim states it, fails for a header that is present and empty: no record
  resolves to it, and the answer is \<^verbatim>\<open>Missing API key\<close>, not
  \<^verbatim>\<open>Invalid or revoked API key\<close>.
\<close>

theorem empty_key_counterexample:
  "x_api_key (example_request (Some []) no_query [] None) = Some []
   \<and> getApiKeyByKey (Some example_db) [] = Inr None
   \<and> authenticateApiKey (Some example_db) (example_request (Some []) no_query [] None)
       = Answer \<lparr> status = 401, payload = ErrorJson ''Missing API key'' \<rparr>
   \<and> authenticateApiKey (Some example_db) (example_request (Some []) no_query [] None)
       \<noteq> Answer \<lparr> status = 401, payload = ErrorJson ''Invalid or revoked API key'' \<rparr>"
  by (simp add: authenticateApiKey_def example_request_def no_query_def limit_query_def getApiKeyByKey_def select_first_def
      status_json_def example_defs)

text \<open>
  C7, amended. A header that is absent or empty is answered 401 \<^verbatim>\<open>Missing API key\<close>. For
  a header that is present and not empty the key is looked up. When the lookup throws,
  which it does exactly when there is no datastore connection, the middleware's promise
  rejects with that error: the middleware sends no answer and the handler does not run.
  When the lookup finds no record or finds an inactive one, the answer is 401
  \<^verbatim>\<open>Invalid or revoked API key\<close>. When it finds an active record, the record and its
  project id are bound to the request and the route's answer is the handler's. In the
  first three cases the datastore is as it was. On a table with unique keys the lookup
  finds no record when no row holds the key, and otherwise the row that holds it.
\<close>

theorem authenticateApiKey_outcomes:
  "(x_api_key req = None \<or> x_api_key req = Some [] \<longrightarrow>
      authenticateApiKey dbh req
        = Answer \<lparr> status = 401, payload = ErrorJson ''Missing API key'' \<rparr>
    \<and> (\<forall>handler. route dbh req handler
          = (Sent \<lparr> status = 401, payload = ErrorJson ''Missing API key'' \<rparr>, dbh)))
   \<and> (\<forall>apiKey. x_api_key req = Some apiKey \<and> apiKey \<noteq> [] \<longrightarrow>
        (\<forall>e. getApiKeyByKey dbh apiKey = Inl e \<longrightarrow>
           authenticateApiKey dbh req = Reject e
         \<and> (\<forall>handler. route dbh req handler = (Unhandled e, dbh)))
      \<and> (getApiKeyByKey dbh apiKey = Inr None \<longrightarrow>
           authenticateApiKey dbh req
             = Answer \<lparr> status = 401, payload = ErrorJson ''Invalid or revoked API key'' \<rparr>
         \<and> (\<forall>handler. route dbh req handler
               = (Sent \<lparr> status = 401, payload = ErrorJson ''Invalid or revoked API key'' \<rparr>,
                  dbh)))
      \<and> (\<forall>keyData. getApiKeyByKey dbh apiKey = Inr (Some keyData) \<longrightarrow>
           (\<not> k_isActive keyData \<longrightarrow>
              authenticateApiKey dbh req
                = Answer \<lparr> status = 401, payload = ErrorJson ''Invalid or revoked API key'' \<rparr>
            \<and> (\<forall>handler. route dbh req handler
                  = (Sent \<lparr> status = 401,
                            payload = ErrorJson ''Invalid or revoked API key'' \<rparr>, dbh)))
         \<and> (k_isActive keyData \<longrightarrow>
              authenticateApiKey dbh req
                = Next \<lparr> req_apiKey = keyData, req_projectId = k_projectId keyData \<rparr>
            \<and> (\<forall>handler. route dbh req handler =
                  (Sent (fst (handler \<lparr> req_apiKey = keyData,
                                         req_projectId = k_projectId keyData \<rparr> req)),
                   snd (handler \<lparr> req_apiKey = keyData,
                                  req_projectId = k_projectId keyData \<rparr> req))))))
   \<and> (\<forall>apiKey. getApiKeyByKey None apiKey = Inl (Error ''Database not available''))
   \<and> (\<forall>d apiKey. \<exists>found. getApiKeyByKey (Some d) apiKey = Inr found)
   \<and> (\<forall>d apiKey. distinct (map k_key (rows (apiKeys d))) \<longrightarrow>
        ((\<forall>r \<in> set (rows (apiKeys d)). k_key r \<noteq> apiKey) \<longrightarrow>
           getApiKeyByKey (Some d) apiKey = Inr None)
      \<and> (\<forall>keyData \<in> set (rows (apiKeys d)). k_key keyData = apiKey \<longrightarrow>
           getApiKeyByKey (Some d) apiKey = Inr (Some keyData)))"
proof (intro conjI allI impI ballI)
  assume "x_api_key req = None \<or> x_api_key req = Some []"
  then show missing: "authenticateApiKey dbh req
        = Answer \<lparr> status = 401, payload = ErrorJson ''Missing API key'' \<rparr>"
    by (auto simp add: authenticateApiKey_def status_json_def)
  fix handler
  show "route dbh req handler
          = (Sent \<lparr> status = 401, payload = ErrorJson ''Missing API key'' \<rparr>, dbh)"
    by (simp add: route_def missing)
next
  fix apiKey
  assume present: "x_api_key req = Some apiKey \<and> apiKey \<noteq> []"
  {
    fix e
    assume "getApiKeyByKey dbh apiKey = Inl e"
    with present show rejected: "authenticateApiKey dbh req = Reject e"
      by (simp add: authenticateApiKey_def)
    fix handler
    show "route dbh req handler = (Unhandled e, dbh)"
      by (simp add: route_def rejected)
  next
    assume "getApiKeyByKey dbh apiKey = Inr None"
    with present show invalid: "authenticateApiKey dbh req
             = Answer \<lparr> status = 401, payload = ErrorJson ''Invalid or revoked API key'' \<rparr>"
      by (simp add: authenticateApiKey_def status_json_def)
    fix handler
    show "route dbh req handler
               = (Sent \<lparr> status = 401, payload = ErrorJson ''Invalid or revoked API key'' \<rparr>,
                  dbh)"
      by (simp add: route_def invalid)
  next
    fix keyData
    assume found: "getApiKeyByKey dbh apiKey = Inr (Some keyData)"
    {
      assume "\<not> k_isActive keyData"
      with present found show revoked: "authenticateApiKey dbh req
             = Answer \<lparr> status = 401, payload = ErrorJson ''Invalid or revoked API key'' \<rparr>"
        by (simp add: authenticateApiKey_def status_json_def)
      fix handler
      show "route dbh req handler
                  = (Sent \<lparr> status = 401,
                            payload = ErrorJson ''Invalid or revoked API key'' \<rparr>, dbh)"
        by (simp add: route_def revoked)
    next
      assume active: "k_isActive keyData"
      with present found show next_called: "authenticateApiKey dbh req
                = Next \<lparr> req_apiKey = keyData, req_projectId = k_projectId keyData \<rparr>"
        by (simp add: authenticateApiKey_def)
      fix handler
      show "route dbh req handler =
                  (Sent (fst (handler \<lparr> req_apiKey = keyData,
                                         req_projectId = k_projectId keyData \<rparr> req)),
                   snd (handler \<lparr> req_apiKey = keyData,
                                  req_projectId = k_projectId keyData \<rparr> req))"
        by (simp add: route_def next_called split: prod.splits)
    }
  }
next
  fix apiKey
  show "getApiKeyByKey None apiKey = Inl (Error ''Database not available'')"
    by (simp add: getApiKeyByKey_def unavailable_def)
next
  fix d :: db and apiKey
  show "\<exists>found. getApiKeyByKey (Some d) apiKey = Inr found"
    by (simp add: getApiKeyByKey_def)
next
  fix d :: db and apiKey
  assume "\<forall>r \<in> set (rows (apiKeys d)). k_key r \<noteq> apiKey"
  then have "select_first (\<lambda>r. k_key r = apiKey) (rows (apiKeys d)) = None"
    by (intro select_first_absent) auto
  then show "getApiKeyByKey (Some d) apiKey = Inr None"
    by (simp add: getApiKeyByKey_def)
next
  fix d :: db and apiKey keyData
  assume "distinct (map k_key (rows (apiKeys d)))" and "keyData \<in> set (rows (apiKeys d))"
    and "k_key keyData = apiKey"
  then have "select_first (\<lambda>r. k_key r = apiKey) (rows (apiKeys d)) = Some keyData"
    using select_first_unique_key [of k_key "rows (apiKeys d)" keyData] by simp
  then show "getApiKeyByKey (Some d) apiKey = Inr (Some keyData)"
    by (simp add: getApiKeyByKey_def)
qed

theorem authenticateApiKey_outcomes_witness:
  "authenticateApiKey (Some example_db) (example_request None no_query [] None)
     = Answer \<lparr> status = 401, payload = ErrorJson ''Missing API key'' \<rparr>
   \<and> authenticateApiKey (Some example_db) (example_request (Some ''sk_0_zzz'') no_query [] None)
     = Answer \<lparr> status = 401, payload = ErrorJson ''Invalid or revoked API key'' \<rparr>
   \<and> authenticateApiKey (Some example_db) (example_request (Some ''sk_130_abc'') no_query [] None)
     = Next \<lparr> req_apiKey = key1, req_projectId = 10 \<rparr>
   \<and> get_api_v1_project (Some example_db) (example_request (Some ''sk_130_abc'') no_query [] None)
     = (Sent \<lparr> status = 200,
               payload = ProjectJson \<lparr> pi_id = 10, pi_name = ''P1'', pi_description = None,
                                        pi_isActive = True, pi_createdAt = 120 \<rparr> \<rparr>,
        Some example_db)
   \<and> authenticateApiKey None (example_request (Some ''sk_130_abc'') no_query [] None)
     = Reject (Error ''Database not available'')
   \<and> get_api_v1_project None (example_request (Some ''sk_130_abc'') no_query [] None)
     = (Unhandled (Error ''Database not available''), None)"
proof -
  have none: "getApiKeyByKey (Some example_db) ''sk_0_zzz'' = Inr None"
    by (simp add: getApiKeyByKey_def select_first_def example_defs)
  have some: "getApiKeyByKey (Some example_db) ''sk_130_abc'' = Inr (Some key1)"
    by (simp add: getApiKeyByKey_def select_first_def example_defs)
  have act: "k_isActive key1" "k_projectId key1 = 10"
    by (simp_all add: key1_def)
  have a: "authenticateApiKey (Some example_db) (example_request None no_query [] None)
     = Answer \<lparr> status = 401, payload = ErrorJson ''Missing API key'' \<rparr>"
    using authenticateApiKey_outcomes [where req = "example_request None no_query [] None"
        and dbh = "Some example_db"]
    by (simp add: example_request_def)
  have b: "authenticateApiKey (Some example_db) (example_request (Some ''sk_0_zzz'') no_query [] None)
     = Answer \<lparr> status = 401, payload = ErrorJson ''Invalid or revoked API key'' \<rparr>"
    using authenticateApiKey_outcomes [where dbh = "Some example_db"
        and req = "example_request (Some ''sk_0_zzz'') no_query [] None"] none
    by (simp add: example_request_def)
  note t = authenticateApiKey_outcomes [where dbh = "Some example_db"
        and req = "example_request (Some ''sk_130_abc'') no_query [] None"]
  have c: "authenticateApiKey (Some example_db) (example_request (Some ''sk_130_abc'') no_query [] None)
     = Next \<lparr> req_apiKey = key1, req_projectId = 10 \<rparr>"
    using t some act by (simp add: example_request_def)
  have d: "get_api_v1_project (Some example_db) (example_request (Some ''sk_130_abc'') no_query [] None)
     = (Sent \<lparr> status = 200,
               payload = ProjectJson \<lparr> pi_id = 10, pi_name = ''P1'', pi_description = None,
                                        pi_isActive = True, pi_createdAt = 120 \<rparr> \<rparr>,
        Some example_db)"
    using t some act
    by (simp add: example_request_def get_api_v1_project_def get_project_def getProjectById_def
        select_first_def json_response_def example_db_def p1_def)
  note u = authenticateApiKey_outcomes [where dbh = None
        and req = "example_request (Some ''sk_130_abc'') no_query [] None"]
  have e: "authenticateApiKey None (example_request (Some ''sk_130_abc'') no_query [] None)
     = Reject (Error ''Database not available'')"
    using u by (simp add: example_request_def)
  have f: "get_api_v1_project None (example_request (Some ''sk_130_abc'') no_query [] None)
     = (Unhandled (Error ''Database not available''), None)"
    using u by (simp add: example_request_def get_api_v1_project_def)
  show ?thesis using a b c d e f by blast
qed

subsection \<open>Falsy payloads\<close>

lemmas bigint_defs = BigInt_def trimWhite_def allDigits_def isWhite1_def isWhite2_def
  isWhite3_def isDigit_def digitVal_def
  digitsVal_def

text \<open>
  C9, as the claim states it, fails on the update endpoint when the path parameter is no
  integer literal: the conversion throws before the payload is looked at, and the answer
  is 500.
\<close>

theorem update_bad_id_counterexample:
  "truthy_opt (Some (JNum 0)) = False
   \<and> put_api_v1_data_id 2000 (Some example_db)
        (example_request (Some ''sk_130_abc'') no_query ''abc'' (Some (JNum 0)))
     = (Sent \<lparr> status = 500, payload = ErrorJson ''Cannot convert abc to a BigInt'' \<rparr>,
        Some example_db)"
  by (simp add: put_api_v1_data_id_def route_def authenticateApiKey_def getApiKeyByKey_def
      select_first_def update_data_def toBigInt_def failed_def status_json_def
      example_request_def no_query_def limit_query_def example_defs bigint_defs)

lemma falsy_values:
  "(\<not> truthy_opt v) = (v \<in> {None, Some JNull, Some (JBool False), Some (JNum 0), Some (JStr [])})"
proof (cases v)
  case None
  then show ?thesis by simp
next
  case (Some j)
  then show ?thesis by (cases j) auto
qed

text \<open>
  C9, amended. The falsy payloads are the absent one, \<^verbatim>\<open>null\<close>, \<^verbatim>\<open>false\<close>, \<^verbatim>\<open>0\<close> and the
  empty string. For each of them the create handler answers 400
  \<^verbatim>\<open>Data field is required\<close>, and so does the update handler when the path parameter
  converts to a BigInt; when it does not, the update handler answers 500 with the
  conversion's message. In every case the datastore is as it was, and the routes answer
  the same for a request that passed the middleware.
\<close>

theorem falsy_data_rejected:
  assumes falsy: "b_data (body req) \<in> {None, Some JNull, Some (JBool False), Some (JNum 0),
                                        Some (JStr [])}"
  shows "insert_data now dbh b req
           = (\<lparr> status = 400, payload = ErrorJson ''Data field is required'' \<rparr>, dbh)
    \<and> (\<forall>dataId. BigInt (params_id req) = Some dataId \<longrightarrow>
          update_data now dbh b req
            = (\<lparr> status = 400, payload = ErrorJson ''Data field is required'' \<rparr>, dbh))
    \<and> (BigInt (params_id req) = None \<longrightarrow>
          update_data now dbh b req
            = (\<lparr> status = 500,
                 payload = ErrorJson (''Cannot convert '' @ params_id req @ '' to a BigInt'') \<rparr>,
               dbh))
    \<and> (authenticateApiKey dbh req = Next b \<longrightarrow>
          post_api_v1_data now dbh req
            = (Sent \<lparr> status = 400, payload = ErrorJson ''Data field is required'' \<rparr>, dbh)
        \<and> (\<forall>dataId. BigInt (params_id req) = Some dataId \<longrightarrow>
              put_api_v1_data_id now dbh req
                = (Sent \<lparr> status = 400, payload = ErrorJson ''Data field is required'' \<rparr>,
                   dbh)))"
proof -
  have f: "\<not> truthy_opt (b_data (body req))"
    using falsy by (simp only: falsy_values)
  have ins: "insert_data now dbh b req
           = (\<lparr> status = 400, payload = ErrorJson ''Data field is required'' \<rparr>, dbh)"
    using f by (simp add: insert_data_def status_json_def Let_def)
  have upd: "update_data now dbh b req
            = (\<lparr> status = 400, payload = ErrorJson ''Data field is required'' \<rparr>, dbh)"
    if "BigInt (params_id req) = Some dataId" for dataId
    using f that by (simp add: update_data_def toBigInt_def status_json_def Let_def)
  have bad: "update_data now dbh b req
            = (\<lparr> status = 500,
                 payload = ErrorJson (''Cannot convert '' @ params_id req @ '' to a BigInt'') \<rparr>,
               dbh)"
    if "BigInt (params_id req) = None"
    using that by (simp add: update_data_def toBigInt_def failed_def status_json_def)
  show ?thesis
    using ins upd bad
    by (simp add: post_api_v1_data_def put_api_v1_data_id_def route_def)
qed

theorem falsy_data_rejected_witness:
  "post_api_v1_data 2000 (Some example_db)
      (example_request (Some ''sk_130_abc'') no_query [] (Some (JNum 0)))
     = (Sent \<lparr> status = 400, payload = ErrorJson ''Data field is required'' \<rparr>, Some example_db)
   \<and> put_api_v1_data_id 2000 (Some example_db)
      (example_request (Some ''sk_130_abc'') no_query ''5'' (Some (JStr [])))
     = (Sent \<lparr> status = 400, payload = ErrorJson ''Data field is required'' \<rparr>, Some example_db)"
proof -
  have auth: "authenticateApiKey (Some example_db)
      (example_request (Some ''sk_130_abc'') no_query ident data)
      = Next \<lparr> req_apiKey = key1, req_projectId = 10 \<rparr>" for ident data
    by (simp add: authenticateApiKey_def getApiKeyByKey_def select_first_def
        example_request_def no_query_def limit_query_def example_defs)
  have five: "BigInt ''5'' = Some 5"
    by (simp add: bigint_defs)
  have a: "post_api_v1_data 2000 (Some example_db)
      (example_request (Some ''sk_130_abc'') no_query [] (Some (JNum 0)))
     = (Sent \<lparr> status = 400, payload = ErrorJson ''Data field is required'' \<rparr>, Some example_db)"
    using falsy_data_rejected [where now = 2000 and dbh = "Some example_db"
        and b = "\<lparr> req_apiKey = key1, req_projectId = 10 \<rparr>"
        and req = "example_request (Some ''sk_130_abc'') no_query [] (Some (JNum 0))"] auth
    by (simp add: example_request_def no_query_def limit_query_def)
  have b: "put_api_v1_data_id 2000 (Some example_db)
      (example_request (Some ''sk_130_abc'') no_query ''5'' (Some (JStr [])))
     = (Sent \<lparr> status = 400, payload = ErrorJson ''Data field is required'' \<rparr>, Some example_db)"
    using falsy_data_rejected [where now = 2000 and dbh = "Some example_db"
        and b = "\<lparr> req_apiKey = key1, req_projectId = 10 \<rparr>"
        and req = "example_request (Some ''sk_130_abc'') no_query ''5'' (Some (JStr []))"]
      auth five
    by (simp add: example_request_def no_query_def limit_query_def)
  show ?thesis using a b by blast
qed

subsection \<open>The total of a page\<close>





end
